theory Spec2Isabelle
  imports Main "HOL-Library.Sublist"
begin

section \<open>Data model (pkg/types)\<close>

text \<open>
  A Go \<open>error\<close> is carried by its message (\<open>fmt.Errorf\<close> with \<open>%v\<close> flattens the cause
  into the text); \<open>nil\<close> is \<open>None\<close>. Go strings are byte sequences, so \<open>string\<close>
  (a list of 8-bit characters) is the same data and \<open>length\<close> is Go's \<open>len\<close>.
  User and chat identifiers (\<open>int64\<close>) are only stored, compared and passed on, and are
  integers here; lengths and indices (\<open>int\<close>) stay far below the 64-bit range.
\<close>

type_synonym error = string

text \<open>
  \<open>time.Time\<close>: an instant (nanoseconds since the Unix epoch) and the offset of its
  location in seconds east of UTC.
\<close>

record Time =
  unix_nano :: int
  zone :: int

text \<open>
  \<open>AIAction\<close> and \<open>AIResponse\<close> are two structs with the same event fields; the
  second is written as an extension of the first so that the field names of the source
  serve for both. The \<open>Action\<close> field of an \<open>Interaction\<close> is \<open>IAction\<close> here.
\<close>

record AIAction =
  Action :: string
  EventDate :: string
  EventTitle :: string
  EventTime :: string
  EventDesc :: string
  EventLoc :: string

record AIResponse = AIAction +
  Message :: string
  EventID :: string
  Actions :: "AIAction list"

record CalendarEvent =
  ID :: string
  Summary :: string
  Description :: string
  Start :: Time
  End :: Time
  Location :: string

record Interaction =
  UserID :: int
  Timestamp :: Time
  UserMessage :: string
  AIResponse :: string
  IAction :: string

section \<open>Formatting\<close>

text \<open>\<open>fmt.Sprintf\<close> with \<open>%d\<close>: the decimal digits, with a sign when negative.\<close>

fun Itoa :: "nat \<Rightarrow> string" where
  "Itoa n = (if n < 10 then [''0123456789'' ! n]
             else Itoa (n div 10) @ [''0123456789'' ! (n mod 10)])"

declare Itoa.simps [simp del]

definition Sprintf_d :: "int \<Rightarrow> string" where
  "Sprintf_d i = (if i < 0 then ''-'' @ Itoa (nat (- i)) else Itoa (nat i))"

text \<open>The slice \<open>s[lo:hi]\<close>, for \<open>lo \<le> hi \<le> len(s)\<close>.\<close>

definition slice :: "'a list \<Rightarrow> nat \<Rightarrow> nat \<Rightarrow> 'a list" where
  "slice s lo hi = take (hi - lo) (drop lo s)"

text \<open>
  \<open>strings.LastIndex\<close> for a one-byte separator: the index of its last occurrence,
  or -1.
\<close>

fun last_index_from :: "string \<Rightarrow> char \<Rightarrow> int \<Rightarrow> int \<Rightarrow> int" where
  "last_index_from [] sep i found = found"
| "last_index_from (x # xs) sep i found =
     last_index_from xs sep (i + 1) (if x = sep then i else found)"

definition LastIndex :: "string \<Rightarrow> char \<Rightarrow> int" where
  "LastIndex s sep = last_index_from s sep 0 (- 1)"

section \<open>The third-party calls\<close>

text \<open>
  The request and the items of the Google Calendar API (\<open>calendar.Event\<close>): the fields
  the service reads or writes.
\<close>

record GEvent =
  Id :: string
  GSummary :: string
  GDescription :: string
  GLocation :: string
  StartDateTime :: string
  StartTimeZone :: string
  EndDateTime :: string
  EndTimeZone :: string

text \<open>
  Everything the program calls outside the repository, over an outside world \<open>'w\<close>
  that each call may change: the wall clock, the \<open>time\<close> parser and formatter, the
  chat-completion request, the calendar API requests, the Telegram send, the JSON encoder
  of \<open>encoding/json\<close> and the write of a file. The constant options of the requests (model and
  temperature, ordering and expansion of the listed events, the timeout of ten seconds),
  the pause between the parts of a long message and the log output have no part in what
  the functions return and are left out.
\<close>

record 'w sdk =
  time_Now :: "'w \<Rightarrow> Time"
  time_Parse :: "string \<Rightarrow> string \<Rightarrow> error + Time"
  time_Format :: "string \<Rightarrow> Time \<Rightarrow> string"
  CreateChatCompletion :: "'w \<Rightarrow> string \<Rightarrow> string \<Rightarrow> (error + string list) \<times> 'w"
  Unmarshal_AIResponse :: "string \<Rightarrow> error + AIResponse"
  Events_List :: "'w \<Rightarrow> string \<Rightarrow> string \<Rightarrow> string \<Rightarrow> (error + GEvent list) \<times> 'w"
  Events_Insert :: "'w \<Rightarrow> string \<Rightarrow> GEvent \<Rightarrow> error option \<times> 'w"
  Events_Update :: "'w \<Rightarrow> string \<Rightarrow> string \<Rightarrow> GEvent \<Rightarrow> error option \<times> 'w"
  Events_Delete :: "'w \<Rightarrow> string \<Rightarrow> string \<Rightarrow> error option \<times> 'w"
  bot_Send :: "'w \<Rightarrow> int \<Rightarrow> string \<Rightarrow> error option \<times> 'w"
  MarshalIndent :: "(int \<rightharpoonup> Interaction list) \<Rightarrow> error + string"
  os_WriteFile :: "'w \<Rightarrow> string \<Rightarrow> string \<Rightarrow> error option \<times> 'w"

section \<open>Program state\<close>

record Database =
  filePath :: string
  interactions :: "int \<rightharpoonup> Interaction list"

text \<open>
  The calls the agent makes on its two collaborators, the calendar service and the
  Telegram bot, in the order they are made.
\<close>

datatype call =
    CallGetEvents string
  | CallCreateEvent string string string string string
  | CallUpdateEvent string string string string string string
  | CallDeleteEvent string
  | CallSendMessage int string

text \<open>
  \<open>sent\<close> lists the messages handed to the Telegram API (chat and text), failed
  attempts included.
\<close>

record 'w state =
  world :: 'w
  database :: Database
  calls :: "call list"
  sent :: "(int \<times> string) list"

section \<open>pkg/database\<close>

definition saveInteractions :: "'w sdk \<Rightarrow> 'w state \<Rightarrow> error option \<times> 'w state" where
  "saveInteractions c s =
     (case MarshalIndent c (interactions (database s)) of
        Inl err \<Rightarrow> (Some (''failed to marshal interactions: '' @ err), s)
      | Inr data \<Rightarrow>
          (case os_WriteFile c (world s) (filePath (database s)) data of
             (Some err, w) \<Rightarrow> (Some (''failed to write interactions file: '' @ err), s\<lparr>world := w\<rparr>)
           | (None, w) \<Rightarrow> (None, s\<lparr>world := w\<rparr>)))"

text \<open>
  The entries of a user; a user without an entry in the table has none. Reading the file
  back at start-up (\<open>loadInteractions\<close>) depends on the JSON decoder alone and is not
  part of this embedding: the operations below start from the table they are given.
\<close>

definition stored :: "Database \<Rightarrow> int \<Rightarrow> Interaction list" where
  "stored d userID = (case interactions d userID of None \<Rightarrow> [] | Some xs \<Rightarrow> xs)"

definition AddInteraction ::
  "'w sdk \<Rightarrow> int \<Rightarrow> string \<Rightarrow> string \<Rightarrow> string \<Rightarrow> 'w state \<Rightarrow> error option \<times> 'w state" where
  "AddInteraction c userID userMessage aiResponse action s =
     (let interaction = \<lparr>UserID = userID, Timestamp = time_Now c (world s),
                          UserMessage = userMessage, AIResponse = aiResponse, IAction = action\<rparr>;
          d = database s;
          appended = stored d userID @ [interaction];
          kept = (if length appended > 50 then drop (length appended - 50) appended
                  else appended)
      in saveInteractions c (s\<lparr>database := d\<lparr>interactions := (interactions d)(userID \<mapsto> kept)\<rparr>\<rparr>))"

definition GetUserInteractions :: "Database \<Rightarrow> int \<Rightarrow> int \<Rightarrow> Interaction list" where
  "GetUserInteractions d userID limit =
     (let xs = stored d userID
      in if length xs = 0 then []
         else if limit > 0 \<and> int (length xs) > limit
              then drop (nat (int (length xs) - limit)) xs
              else xs)"

definition context_entry :: "Interaction \<Rightarrow> string" where
  "context_entry i = ''User: '' @ UserMessage i @ ''\<newline>AI: '' @ AIResponse i @ ''\<newline>\<newline>''"

definition GetUserContext :: "Database \<Rightarrow> int \<Rightarrow> int \<Rightarrow> string" where
  "GetUserContext d userID messageCount =
     (let xs = GetUserInteractions d userID messageCount
      in if length xs = 0 then ''''
         else foldl (\<lambda>context i. context @ context_entry i) '''' xs)"

text \<open>A sequence of \<open>AddInteraction\<close> calls, each given as user, message, response, action.\<close>

fun add_all :: "'w sdk \<Rightarrow> (int \<times> string \<times> string \<times> string) list \<Rightarrow> 'w state \<Rightarrow> 'w state" where
  "add_all c [] s = s"
| "add_all c ((u, m, r, a) # rest) s = add_all c rest (snd (AddInteraction c u m r a s))"

section \<open>pkg/calendar\<close>

record Service =
  calendarID :: string

definition Hour :: int where
  "Hour = 3600 * 1000000000"

definition Add :: "Time \<Rightarrow> int \<Rightarrow> Time" where
  "Add t d = t\<lparr>unix_nano := unix_nano t + d\<rparr>"

text \<open>
  \<open>Truncate\<close> rounds down to a multiple of \<open>d\<close> since the zero time; for the 24 hours
  used here that is a multiple of \<open>d\<close> since the Unix epoch as well, the zero time
  being a whole number of days before it.
\<close>

definition Truncate :: "Time \<Rightarrow> int \<Rightarrow> Time" where
  "Truncate t d = t\<lparr>unix_nano := unix_nano t - unix_nano t mod d\<rparr>"

text \<open>The zero \<open>time.Time\<close>, which \<open>time.Parse\<close> returns beside an error.\<close>

definition zero_Time :: Time where
  "zero_Time = \<lparr>unix_nano = - 62135596800 * 1000000000, zone = 0\<rparr>"

definition RFC3339 :: string where
  "RFC3339 = ''2006-01-02T15:04:05Z07:00''"

definition parse_or_zero :: "'w sdk \<Rightarrow> string \<Rightarrow> string \<Rightarrow> Time" where
  "parse_or_zero c layout v = (case time_Parse c layout v of Inl err \<Rightarrow> zero_Time | Inr t \<Rightarrow> t)"

definition to_CalendarEvent :: "'w sdk \<Rightarrow> GEvent \<Rightarrow> CalendarEvent" where
  "to_CalendarEvent c event =
     \<lparr>ID = Id event, Summary = GSummary event, Description = GDescription event,
      Start = parse_or_zero c RFC3339 (StartDateTime event),
      End = parse_or_zero c RFC3339 (EndDateTime event),
      Location = GLocation event\<rparr>"

text \<open>The start of the day a date string names: \<open>GetEvents\<close> up to the API request.\<close>

definition day_start :: "'w sdk \<Rightarrow> 'w \<Rightarrow> string \<Rightarrow> error + Time" where
  "day_start c w dateStr =
     (if dateStr = ''today'' then Inr (Truncate (time_Now c w) (24 * Hour))
      else if dateStr = ''tomorrow''
        then Inr (Truncate (Add (time_Now c w) (24 * Hour)) (24 * Hour))
      else if dateStr = ''yesterday''
        then Inr (Truncate (Add (time_Now c w) (- 24 * Hour)) (24 * Hour))
      else (case time_Parse c ''2006-01-02'' dateStr of
              Inl err \<Rightarrow> Inl (''invalid date format: '' @ err)
            | Inr t \<Rightarrow> Inr t))"

definition GetEvents ::
  "'w sdk \<Rightarrow> Service \<Rightarrow> string \<Rightarrow> 'w state \<Rightarrow> (error + CalendarEvent list) \<times> 'w state" where
  "GetEvents c svc dateStr0 s0 =
     (let s = s0\<lparr>calls := calls s0 @ [CallGetEvents dateStr0]\<rparr>;
          dateStr = (if dateStr0 = '''' then ''today'' else dateStr0)
      in case day_start c (world s) dateStr of
           Inl err \<Rightarrow> (Inl err, s)
         | Inr startTime \<Rightarrow>
             (let endTime = Add startTime (24 * Hour)
              in case Events_List c (world s) (calendarID svc)
                        (time_Format c RFC3339 startTime) (time_Format c RFC3339 endTime) of
                   (Inl err, w) \<Rightarrow> (Inl (''failed to get events: '' @ err), s\<lparr>world := w\<rparr>)
                 | (Inr items, w) \<Rightarrow> (Inr (map (to_CalendarEvent c) items), s\<lparr>world := w\<rparr>)))"

definition new_event :: "'w sdk \<Rightarrow> string \<Rightarrow> string \<Rightarrow> string \<Rightarrow> Time \<Rightarrow> GEvent" where
  "new_event c title description location startTime =
     \<lparr>Id = '''', GSummary = title, GDescription = description, GLocation = location,
      StartDateTime = time_Format c RFC3339 startTime, StartTimeZone = ''UTC'',
      EndDateTime = time_Format c RFC3339 (Add startTime (1 * Hour)), EndTimeZone = ''UTC''\<rparr>"

definition CreateEvent ::
  "'w sdk \<Rightarrow> Service \<Rightarrow> string \<Rightarrow> string \<Rightarrow> string \<Rightarrow> string \<Rightarrow> string \<Rightarrow> 'w state
     \<Rightarrow> error option \<times> 'w state" where
  "CreateEvent c svc title dateStr timeStr description location s0 =
     (let s = s0\<lparr>calls := calls s0 @ [CallCreateEvent title dateStr timeStr description location]\<rparr>
      in case time_Parse c ''2006-01-02 15:04'' (dateStr @ '' '' @ timeStr) of
           Inl err \<Rightarrow> (Some (''invalid date/time format: '' @ err), s)
         | Inr startTime \<Rightarrow>
             (case Events_Insert c (world s) (calendarID svc)
                     (new_event c title description location startTime) of
                (Some err, w) \<Rightarrow> (Some (''failed to create event: '' @ err), s\<lparr>world := w\<rparr>)
              | (None, w) \<Rightarrow> (None, s\<lparr>world := w\<rparr>)))"

definition UpdateEvent ::
  "'w sdk \<Rightarrow> Service \<Rightarrow> string \<Rightarrow> string \<Rightarrow> string \<Rightarrow> string \<Rightarrow> string \<Rightarrow> string \<Rightarrow> 'w state
     \<Rightarrow> error option \<times> 'w state" where
  "UpdateEvent c svc eventID title dateStr timeStr description location s0 =
     (let s = s0\<lparr>calls := calls s0 @
                 [CallUpdateEvent eventID title dateStr timeStr description location]\<rparr>
      in case time_Parse c ''2006-01-02 15:04'' (dateStr @ '' '' @ timeStr) of
           Inl err \<Rightarrow> (Some (''invalid date/time format: '' @ err), s)
         | Inr startTime \<Rightarrow>
             (case Events_Update c (world s) (calendarID svc) eventID
                     (new_event c title description location startTime) of
                (Some err, w) \<Rightarrow> (Some (''failed to update event: '' @ err), s\<lparr>world := w\<rparr>)
              | (None, w) \<Rightarrow> (None, s\<lparr>world := w\<rparr>)))"

definition DeleteEvent ::
  "'w sdk \<Rightarrow> Service \<Rightarrow> string \<Rightarrow> 'w state \<Rightarrow> error option \<times> 'w state" where
  "DeleteEvent c svc eventID s0 =
     (let s = s0\<lparr>calls := calls s0 @ [CallDeleteEvent eventID]\<rparr>
      in case Events_Delete c (world s) (calendarID svc) eventID of
           (Some err, w) \<Rightarrow> (Some (''failed to delete event: '' @ err), s\<lparr>world := w\<rparr>)
         | (None, w) \<Rightarrow> (None, s\<lparr>world := w\<rparr>))"

section \<open>pkg/ai: the OpenAI service\<close>

text \<open>
  The system prompt is a fixed instruction text around the current time; the request is
  given here by that formatted time and the user prompt. \<open>request_intent\<close> is
  \<open>ProcessMessage\<close> up to the decoded response: a response that is not JSON becomes a
  plain message.
\<close>

definition request_intent ::
  "'w sdk \<Rightarrow> string \<Rightarrow> string \<Rightarrow> 'w state \<Rightarrow> (error + AIResponse) \<times> 'w state" where
  "request_intent c userContext message s =
     (let userPrompt = (if userContext \<noteq> '''' then userContext @ ''\<newline>\<newline>User: '' @ message
                        else message)
      in case CreateChatCompletion c (world s)
                (time_Format c ''2006-01-02 15:04:05'' (time_Now c (world s))) userPrompt of
           (Inl err, w) \<Rightarrow> (Inl (''OpenAI API error: '' @ err), s\<lparr>world := w\<rparr>)
         | (Inr [], w) \<Rightarrow> (Inl ''no response from OpenAI'', s\<lparr>world := w\<rparr>)
         | (Inr (content # others), w) \<Rightarrow>
             (case Unmarshal_AIResponse c content of
                Inl err \<Rightarrow>
                  (Inr \<lparr>Action = ''message'', EventDate = '''', EventTitle = '''',
                        EventTime = '''', EventDesc = '''', EventLoc = '''',
                        Message = content, EventID = '''', Actions = []\<rparr>, s\<lparr>world := w\<rparr>)
              | Inr aiResp \<Rightarrow> (Inr aiResp, s\<lparr>world := w\<rparr>)))"

text \<open>
  \<open>ProcessMessage\<close>: the request and the decoding of its first choice above, then the
  validation of the fields an action requires.
\<close>

definition ProcessMessage ::
  "'w sdk \<Rightarrow> string \<Rightarrow> string \<Rightarrow> 'w state \<Rightarrow> (error + AIResponse) \<times> 'w state" where
  "ProcessMessage c userContext message s =
     (case request_intent c userContext message s of
        (Inl err, s') \<Rightarrow> (Inl err, s')
      | (Inr aiResp, s') \<Rightarrow>
          (Inr (if Action aiResp = ''getEvents'' \<and> EventDate aiResp = ''''
                then aiResp\<lparr>EventDate := ''today''\<rparr> else aiResp), s'))"

section \<open>pkg/telegram\<close>

definition maxLength :: nat where
  "maxLength = 4000"

definition continued :: string where
  "continued = ''\<newline>\<newline>[Message continued...]''"

text \<open>Where the chunk that starts at \<open>start\<close> ends: one pass of the splitting loop.\<close>

definition chunk_end :: "string \<Rightarrow> nat \<Rightarrow> nat" where
  "chunk_end text start =
     (let end0 = start + maxLength;
          end1 = (if end0 > length text then length text else end0)
      in if end1 < length text
         then (let lastNewline = LastIndex (slice text start end1) (CHR 0x0A)
               in if lastNewline > 0 \<and> lastNewline > int maxLength div 2
                  then start + nat lastNewline + 1 else end1)
         else end1)"

function split_loop :: "string \<Rightarrow> nat \<Rightarrow> string list \<Rightarrow> string list" where
  "split_loop text start messages =
     (if start < length text
      then split_loop text (chunk_end text start)
             (messages @ [slice text start (chunk_end text start)])
      else messages)"
  by pat_completeness auto
termination
  by (relation "measure (\<lambda>(text, start, messages). length text - start)")
     (auto simp: chunk_end_def Let_def maxLength_def)

declare split_loop.simps [simp del]

fun send_parts ::
  "'w sdk \<Rightarrow> int \<Rightarrow> nat \<Rightarrow> nat \<Rightarrow> string list \<Rightarrow> 'w state \<Rightarrow> error option \<times> 'w state" where
  "send_parts c chatID n i [] s = (None, s)"
| "send_parts c chatID n i (message # rest) s =
     (let text = (if int i < int n - 1 then message @ continued else message)
      in case bot_Send c (world s) chatID text of
           (Some err, w) \<Rightarrow>
             (Some (''failed to send message part '' @ Sprintf_d (int i + 1) @ ''/'' @
                    Sprintf_d (int n) @ '': '' @ err),
              s\<lparr>world := w, sent := sent s @ [(chatID, text)]\<rparr>)
         | (None, w) \<Rightarrow>
             send_parts c chatID n (i + 1) rest
               (s\<lparr>world := w, sent := sent s @ [(chatID, text)]\<rparr>))"

definition sendLongMessage ::
  "'w sdk \<Rightarrow> int \<Rightarrow> string \<Rightarrow> 'w state \<Rightarrow> error option \<times> 'w state" where
  "sendLongMessage c chatID text s =
     (let messages = split_loop text 0 []
      in send_parts c chatID (length messages) 0 messages s)"

definition SendMessage ::
  "'w sdk \<Rightarrow> int \<Rightarrow> string \<Rightarrow> 'w state \<Rightarrow> error option \<times> 'w state" where
  "SendMessage c chatID text s0 =
     (let s = s0\<lparr>calls := calls s0 @ [CallSendMessage chatID text]\<rparr>
      in if length text > 4096 then sendLongMessage c chatID text s
         else (case bot_Send c (world s) chatID text of
                 (Some err, w) \<Rightarrow>
                   (Some (''failed to send message: '' @ err),
                    s\<lparr>world := w, sent := sent s @ [(chatID, text)]\<rparr>)
               | (None, w) \<Rightarrow> (None, s\<lparr>world := w, sent := sent s @ [(chatID, text)]\<rparr>)))"

section \<open>pkg/ai: the agent\<close>

definition bullet :: string where
  "bullet = [CHR 0xE2, CHR 0x80, CHR 0xA2]"

text \<open>The body of the loop over the events to show: one line appended to the response.\<close>

definition show_event :: "'w sdk \<Rightarrow> string \<Rightarrow> CalendarEvent \<Rightarrow> string" where
  "show_event c response event =
     (let r1 = response @ bullet @ '' '' @ Summary event @ '' ('' @
               time_Format c ''15:04'' (Start event) @ '' - '' @
               time_Format c ''15:04'' (End event) @ '')'';
          r2 = (if Location event \<noteq> '''' then r1 @ '' - '' @ Location event else r1)
      in r2 @ ''\<newline>'')"

definition events_header :: "string \<Rightarrow> int \<Rightarrow> CalendarEvent list \<Rightarrow> string" where
  "events_header date maxEvents events =
     (if int (length events) > maxEvents
      then ''Events for '' @ date @ '' (showing first '' @ Sprintf_d maxEvents @ '' of '' @
           Sprintf_d (int (length events)) @ ''):\<newline>''
      else ''Events for '' @ date @ '':\<newline>'')"

definition events_to_show :: "int \<Rightarrow> CalendarEvent list \<Rightarrow> CalendarEvent list" where
  "events_to_show maxEvents events =
     (if int (length events) > maxEvents then take (nat maxEvents) events else events)"

text \<open>One pass of the loop over \<open>aiResponse.Actions\<close>.\<close>

definition action_step ::
  "'w sdk \<Rightarrow> Service \<Rightarrow> AIAction \<Rightarrow> string \<Rightarrow> 'w state \<Rightarrow> string \<times> 'w state" where
  "action_step c svc action response s =
     (if Action action = ''getEvents''
      then (case GetEvents c svc (EventDate action) s of
              (Inl err, s') \<Rightarrow>
                (response @ ''Error getting events for '' @ EventDate action @ '': '' @ err @
                 ''\<newline>'', s')
            | (Inr events, s') \<Rightarrow>
                (if length events = 0
                 then (response @ ''No events found for '' @ EventDate action @ ''.\<newline>'', s')
                 else (let maxEvents = 15;
                           r1 = response @ events_header (EventDate action) maxEvents events;
                           r2 = foldl (show_event c) r1 (events_to_show maxEvents events);
                           r3 = (if int (length events) > maxEvents
                                 then r2 @ ''... and '' @
                                      Sprintf_d (int (length events) - maxEvents) @
                                      '' more events.\<newline>''
                                 else r2)
                       in (r3 @ ''\<newline>'', s'))))
      else (response @ ''Unknown action: '' @ Action action @ ''\<newline>'', s))"

fun multi_actions ::
  "'w sdk \<Rightarrow> Service \<Rightarrow> AIAction list \<Rightarrow> string \<Rightarrow> 'w state \<Rightarrow> string \<times> 'w state" where
  "multi_actions c svc [] response s = (response, s)"
| "multi_actions c svc (action # rest) response s =
     (case action_step c svc action response s of
        (response', s') \<Rightarrow> multi_actions c svc rest response' s')"

definition executeAIAction ::
  "'w sdk \<Rightarrow> Service \<Rightarrow> int \<Rightarrow> AIResponse \<Rightarrow> 'w state \<Rightarrow> (string \<times> error option) \<times> 'w state" where
  "executeAIAction c svc userID aiResponse s =
     (if length (Actions aiResponse) > 0
      then (case multi_actions c svc (Actions aiResponse)
                   (Message aiResponse @ ''\<newline>\<newline>'') s of
              (response, s') \<Rightarrow> ((response, None), s'))
      else if Action aiResponse = ''getEvents''
      then (case GetEvents c svc (EventDate aiResponse) s of
              (Inl err, s') \<Rightarrow> ((''Error getting events: '' @ err, None), s')
            | (Inr events, s') \<Rightarrow>
                (if length events = 0
                 then ((''No events found for '' @ EventDate aiResponse @ ''.'', None), s')
                 else (let maxEvents = 20;
                           r1 = events_header (EventDate aiResponse) maxEvents events;
                           r2 = foldl (show_event c) r1 (events_to_show maxEvents events);
                           r3 = (if int (length events) > maxEvents
                                 then r2 @ ''\<newline>... and '' @
                                      Sprintf_d (int (length events) - maxEvents) @
                                      '' more events. Use a more specific date range to see fewer events.''
                                 else r2)
                       in ((r3, None), s'))))
      else if Action aiResponse = ''makeEvent''
      then (case CreateEvent c svc (EventTitle aiResponse) (EventDate aiResponse)
                   (EventTime aiResponse) (EventDesc aiResponse) (EventLoc aiResponse) s of
              (Some err, s') \<Rightarrow> ((''Error creating event: '' @ err, None), s')
            | (None, s') \<Rightarrow>
                ((''Event '' @ [CHR 0x27] @ EventTitle aiResponse @ [CHR 0x27] @
                  '' created successfully for '' @
                  EventDate aiResponse @ '' at '' @ EventTime aiResponse, None), s'))
      else if Action aiResponse = ''delEvents''
      then (if EventID aiResponse = ''''
            then ((''Please specify an event ID to delete. Use 'getEvents' first to see available events.'',
                   None), s)
            else (case DeleteEvent c svc (EventID aiResponse) s of
                    (Some err, s') \<Rightarrow> ((''Error deleting event: '' @ err, None), s')
                  | (None, s') \<Rightarrow> ((''Event deleted successfully.'', None), s')))
      else if Action aiResponse = ''updtEvent''
      then (if EventID aiResponse = ''''
            then ((''Please specify an event ID to update. Use 'getEvents' first to see available events.'',
                   None), s)
            else (case UpdateEvent c svc (EventID aiResponse) (EventTitle aiResponse)
                         (EventDate aiResponse) (EventTime aiResponse) (EventDesc aiResponse)
                         (EventLoc aiResponse) s of
                    (Some err, s') \<Rightarrow> ((''Error updating event: '' @ err, None), s')
                  | (None, s') \<Rightarrow> ((''Event updated successfully.'', None), s')))
      else if Action aiResponse = ''None'' then ((Message aiResponse, None), s)
      else if Action aiResponse = ''message'' then ((Message aiResponse, None), s)
      else ((Message aiResponse, None), s))"

definition apology :: string where
  "apology = ''Sorry, I encountered an error processing your request. Please try again.''"

definition ProcessUserMessage ::
  "'w sdk \<Rightarrow> Service \<Rightarrow> int \<Rightarrow> int \<Rightarrow> string \<Rightarrow> 'w state \<Rightarrow> error option \<times> 'w state" where
  "ProcessUserMessage c svc userID chatID message s =
     (let userContext = GetUserContext (database s) userID 10
      in case ProcessMessage c userContext message s of
           (Inl err, s1) \<Rightarrow>
             (case SendMessage c chatID apology s1 of (sendErr, s2) \<Rightarrow> (Some err, s2))
         | (Inr aiResponse, s1) \<Rightarrow>
             (case AddInteraction c userID message (Message aiResponse) (Action aiResponse) s1 of
                (storeErr, s2) \<Rightarrow>
                  (case executeAIAction c svc userID aiResponse s2 of
                     ((response0, err), s3) \<Rightarrow>
                       (let response = (case err of
                                          Some e \<Rightarrow> ''Error executing action: '' @ e
                                        | None \<Rightarrow> response0)
                        in case SendMessage c chatID response s3 of
                             (Some e, s4) \<Rightarrow> (Some e, s4)
                           | (None, s4) \<Rightarrow> (None, s4)))))"

section \<open>Vocabulary of the properties\<close>

text \<open>The most recent \<open>n\<close> entries of a list, in order.\<close>

definition last_n :: "nat \<Rightarrow> 'a list \<Rightarrow> 'a list" where
  "last_n n xs = drop (length xs - n) xs"

text \<open>The interaction \<open>AddInteraction\<close> builds from its arguments and the clock.\<close>

definition new_entry ::
  "'w sdk \<Rightarrow> int \<Rightarrow> string \<Rightarrow> string \<Rightarrow> string \<Rightarrow> 'w state \<Rightarrow> Interaction" where
  "new_entry c userID userMessage aiResponse action s =
     \<lparr>UserID = userID, Timestamp = time_Now c (world s),
      UserMessage = userMessage, AIResponse = aiResponse, IAction = action\<rparr>"

text \<open>The calls on the calendar service, and those on the notification sink.\<close>

fun is_gateway_call :: "call \<Rightarrow> bool" where
  "is_gateway_call (CallSendMessage chatID text) = False"
| "is_gateway_call other = True"

definition gateway_calls :: "call list \<Rightarrow> call list" where
  "gateway_calls tr = filter is_gateway_call tr"

definition sink_calls :: "call list \<Rightarrow> call list" where
  "sink_calls tr = filter (\<lambda>x. \<not> is_gateway_call x) tr"

text \<open>The line of one event: bullet, title, start and end clock time, optional location.\<close>

definition event_line :: "'w sdk \<Rightarrow> CalendarEvent \<Rightarrow> string" where
  "event_line c event =
     bullet @ '' '' @ Summary event @ '' ('' @ time_Format c ''15:04'' (Start event) @ '' - '' @
     time_Format c ''15:04'' (End event) @ '')'' @
     (if Location event = '''' then '''' else '' - '' @ Location event) @ ''\<newline>''"

text \<open>The result block of one \<open>getEvents\<close> step of a multi-action response.\<close>

definition step_block :: "'w sdk \<Rightarrow> string \<Rightarrow> error + CalendarEvent list \<Rightarrow> string" where
  "step_block c date result =
     (case result of
        Inl err \<Rightarrow> ''Error getting events for '' @ date @ '': '' @ err @ ''\<newline>''
      | Inr events \<Rightarrow>
          (if events = [] then ''No events found for '' @ date @ ''.\<newline>''
           else if length events \<le> 15
           then ''Events for '' @ date @ '':\<newline>'' @ concat (map (event_line c) events) @ ''\<newline>''
           else ''Events for '' @ date @ '' (showing first 15 of '' @
                Sprintf_d (int (length events)) @ ''):\<newline>'' @
                concat (map (event_line c) (take 15 events)) @
                ''... and '' @ Sprintf_d (int (length events) - 15) @ '' more events.\<newline>'' @
                ''\<newline>''))"

text \<open>The parts of a long message as they are sent: the marker on all but the last.\<close>

definition with_markers :: "string list \<Rightarrow> string list" where
  "with_markers parts =
     (if parts = [] then [] else map (\<lambda>p. p @ continued) (butlast parts) @ [last parts])"

section \<open>A sample environment\<close>

text \<open>
  Stand-ins for the third-party calls, used to run the program on concrete inputs: a fixed
  clock, a date parser that knows one day, and outcomes of the remote calls given as
  arguments.
\<close>

definition sample_day :: Time where
  "sample_day = \<lparr>unix_nano = 1754352000 * 1000000000, zone = 0\<rparr>"

definition sample_Parse :: "string \<Rightarrow> string \<Rightarrow> error + Time" where
  "sample_Parse layout v =
     (if v = ''2025-08-05'' then Inr sample_day else Inl (''cannot parse '' @ v))"

definition pad2 :: "int \<Rightarrow> string" where
  "pad2 i = (if i < 10 then ''0'' @ Sprintf_d i else Sprintf_d i)"

definition sample_Format :: "string \<Rightarrow> Time \<Rightarrow> string" where
  "sample_Format layout t =
     (if layout = ''15:04''
      then (let secs = (unix_nano t div 1000000000 + zone t) mod 86400
            in pad2 (secs div 3600) @ '':'' @ pad2 (secs mod 3600 div 60))
      else Sprintf_d (unix_nano t div 1000000000))"

definition sample_sdk ::
  "(error + string list) \<Rightarrow> (error + AIResponse) \<Rightarrow> (string \<Rightarrow> error + GEvent list) \<Rightarrow>
   error option \<Rightarrow> error option \<Rightarrow> unit sdk" where
  "sample_sdk completion decoded listing sendResult writeResult =
     \<lparr>time_Now = (\<lambda>w. Add sample_day (9 * Hour)),
      time_Parse = sample_Parse,
      time_Format = sample_Format,
      CreateChatCompletion = (\<lambda>w systemTime userPrompt. (completion, w)),
      Unmarshal_AIResponse = (\<lambda>content. decoded),
      Events_List = (\<lambda>w calendar timeMin timeMax. (listing timeMin, w)),
      Events_Insert = (\<lambda>w calendar event. (None, w)),
      Events_Update = (\<lambda>w calendar eventID event. (None, w)),
      Events_Delete = (\<lambda>w calendar eventID. (None, w)),
      bot_Send = (\<lambda>w chatID text. (sendResult, w)),
      MarshalIndent = (\<lambda>table. Inr ''{}''),
      os_WriteFile = (\<lambda>w path data. (writeResult, w))\<rparr>"

definition sample_service :: Service where
  "sample_service = \<lparr>calendarID = ''primary''\<rparr>"

definition sample_state :: "unit state" where
  "sample_state =
     \<lparr>world = (), database = \<lparr>filePath = ''data/interactions.json'', interactions = Map.empty\<rparr>,
      calls = [], sent = []\<rparr>"

definition sample_interaction :: Interaction where
  "sample_interaction =
     \<lparr>UserID = 7, Timestamp = sample_day, UserMessage = ''hello'', AIResponse = ''hi'',
      IAction = ''None''\<rparr>"

definition intent :: "string \<Rightarrow> string \<Rightarrow> string \<Rightarrow> AIAction list \<Rightarrow> AIResponse" where
  "intent action date eventID actions =
     \<lparr>Action = action, EventDate = date, EventTitle = '''', EventTime = '''', EventDesc = '''',
      EventLoc = '''', Message = ''On it'', EventID = eventID, Actions = actions\<rparr>"

definition sub_intent :: "string \<Rightarrow> string \<Rightarrow> AIAction" where
  "sub_intent action date =
     \<lparr>Action = action, EventDate = date, EventTitle = '''', EventTime = '''', EventDesc = '''',
      EventLoc = ''''\<rparr>"

definition standup :: GEvent where
  "standup =
     \<lparr>Id = ''e1'', GSummary = ''Standup'', GDescription = '''', GLocation = '''',
      StartDateTime = ''2025-08-05'', StartTimeZone = ''UTC'',
      EndDateTime = ''2025-08-05'', EndTimeZone = ''UTC''\<rparr>"

definition full_state :: "unit state" where
  "full_state =
     sample_state\<lparr>database :=
       \<lparr>filePath = ''data/interactions.json'',
        interactions = [7 \<mapsto> replicate 50 sample_interaction]\<rparr>\<rparr>"

definition quiet_sdk :: "unit sdk" where
  "quiet_sdk = sample_sdk (Inr [''ok'']) (Inl ''not JSON'') (\<lambda>timeMin. Inr []) None None"

definition free_day_sdk :: "unit sdk" where
  "free_day_sdk =
     sample_sdk (Inr [''reply'']) (Inr (intent ''getEvents'' ''2025-08-05'' '''' []))
       (\<lambda>timeMin. Inr []) None None"

definition no_id_sdk :: "unit sdk" where
  "no_id_sdk =
     sample_sdk (Inr [''reply'']) (Inr (intent ''delEvents'' '''' '''' []))
       (\<lambda>timeMin. Inr []) None None"

definition undated_sdk :: "unit sdk" where
  "undated_sdk =
     sample_sdk (Inr [''reply'']) (Inr (intent ''getEvents'' '''' '''' []))
       (\<lambda>timeMin. Inr []) None None"

definition busy_sdk :: "unit sdk" where
  "busy_sdk =
     sample_sdk (Inr [''reply'']) (Inr (intent ''getEvents'' ''today'' '''' []))
       (\<lambda>timeMin. Inr (replicate 25 standup)) None None"

definition batch_intent :: AIResponse where
  "batch_intent =
     intent ''None'' '''' ''''
       [sub_intent ''getEvents'' ''today'', sub_intent ''getEvents'' ''someday'',
        sub_intent ''getEvents'' ''2025-08-05'']"

definition batch_sdk :: "unit sdk" where
  "batch_sdk =
     sample_sdk (Inr [''reply'']) (Inr batch_intent) (\<lambda>timeMin. Inr [standup]) None None"

definition down_sdk :: "unit sdk" where
  "down_sdk = sample_sdk (Inl ''timeout'') (Inl ''unused'') (\<lambda>timeMin. Inr []) None None"

definition failing_sdk :: "unit sdk" where
  "failing_sdk =
     sample_sdk (Inr [''reply'']) (Inr (intent ''getEvents'' ''today'' '''' []))
       (\<lambda>timeMin. Inl ''quota exceeded'') None (Some ''disk full'')"

text \<open>
  The texts \<open>send_parts\<close> hands to the Telegram API for the parts from index \<open>i\<close> on,
  out of \<open>n\<close> parts in all.
\<close>

fun marked :: "nat \<Rightarrow> nat \<Rightarrow> string list \<Rightarrow> string list" where
  "marked n i [] = []"
| "marked n i (message # rest) =
     (if int i < int n - 1 then message @ continued else message) # marked n (i + 1) rest"

definition long_text :: string where
  "long_text = replicate 5000 (CHR ''a'')"

section \<open>The conversation store\<close>

lemma saveInteractions_database: "database (snd (saveInteractions c s)) = database s"
  by (simp add: saveInteractions_def split: sum.splits prod.splits option.splits)

lemma AddInteraction_table:
  "interactions (database (snd (AddInteraction c u m r a s))) =
     (interactions (database s))(u \<mapsto> last_n 50 (stored (database s) u @ [new_entry c u m r a s]))"
  by (simp add: AddInteraction_def Let_def saveInteractions_database last_n_def new_entry_def)

lemma AddInteraction_stored_same:
  "stored (database (snd (AddInteraction c u m r a s))) u =
     last_n 50 (stored (database s) u @ [new_entry c u m r a s])"
  by (simp add: stored_def AddInteraction_table)

lemma AddInteraction_stored_other:
  "v \<noteq> u \<Longrightarrow> stored (database (snd (AddInteraction c u m r a s))) v = stored (database s) v"
  by (simp add: stored_def AddInteraction_table)

lemma length_last_n: "length (last_n n xs) \<le> n"
  by (simp add: last_n_def)

lemma AddInteraction_bounded:
  assumes "\<forall>v. length (stored (database s) v) \<le> 50"
  shows "\<forall>v. length (stored (database (snd (AddInteraction c u m r a s))) v) \<le> 50"
proof
  fix v
  show "length (stored (database (snd (AddInteraction c u m r a s))) v) \<le> 50"
  proof (cases "v = u")
    case True
    then show ?thesis by (simp add: AddInteraction_stored_same length_last_n)
  next
    case False
    then show ?thesis using assms by (simp add: AddInteraction_stored_other)
  qed
qed

lemma add_all_bounded:
  "\<forall>v. length (stored (database s) v) \<le> 50 \<Longrightarrow>
   \<forall>v. length (stored (database (add_all c reqs s)) v) \<le> 50"
proof (induction reqs arbitrary: s)
  case Nil
  then show ?case by simp
next
  case (Cons req reqs)
  obtain u m r a where req: "req = (u, m, r, a)" by (cases req) auto
  show ?case unfolding req add_all.simps
    by (rule Cons.IH) (rule AddInteraction_bounded [OF Cons.prems])
qed

lemma last_n_full: "length xs = n \<Longrightarrow> 0 < n \<Longrightarrow> last_n n (xs @ [x]) = tl xs @ [x]"
  by (cases xs) (simp_all add: last_n_def)

text \<open>
  C2. Whatever sequence of \<open>AddInteraction\<close> calls runs on a store that holds at most 50
  interactions per user, it holds at most 50 per user afterwards. One call leaves the
  user with the most recent 50 of the old entries followed by the new one, in order; when
  50 were stored, that is the old list without its first entry, then the new one.
\<close>

theorem store_keeps_last_50:
  "(\<forall>v. length (stored (database s) v) \<le> 50) \<Longrightarrow>
     (\<forall>v. length (stored (database (add_all c reqs s)) v) \<le> 50) \<and>
     length (stored (database (snd (AddInteraction c u m r a s))) u) \<le> 50 \<and>
     stored (database (snd (AddInteraction c u m r a s))) u =
       last_n 50 (stored (database s) u @ [new_entry c u m r a s]) \<and>
     (length (stored (database s) u) = 50 \<longrightarrow>
        stored (database (snd (AddInteraction c u m r a s))) u =
          tl (stored (database s) u) @ [new_entry c u m r a s])"
  by (simp add: add_all_bounded AddInteraction_stored_same length_last_n last_n_full)

theorem store_keeps_last_50_witness:
  "(\<forall>v. length (stored (database full_state) v) \<le> 50) \<and>
   length (stored (database full_state) 7) = 50 \<and>
   (\<forall>v. length (stored (database (add_all quiet_sdk
           [(7, ''today?'', ''On it'', ''getEvents''), (8, ''hi'', ''hello'', ''None'')]
           full_state)) v) \<le> 50) \<and>
   stored (database (snd (AddInteraction quiet_sdk 7 ''today?'' ''On it'' ''getEvents'' full_state))) 7 =
     replicate 49 sample_interaction @
     [\<lparr>UserID = 7, Timestamp = Add sample_day (9 * Hour), UserMessage = ''today?'',
       AIResponse = ''On it'', IAction = ''getEvents''\<rparr>]"
proof -
  have bound: "\<forall>v. length (stored (database full_state) v) \<le> 50"
    by (simp add: full_state_def sample_state_def stored_def)
  have full: "length (stored (database full_state) 7) = 50"
    by (simp add: full_state_def sample_state_def stored_def)
  have old: "tl (stored (database full_state) 7) = replicate 49 sample_interaction"
    by (simp add: full_state_def sample_state_def stored_def)
  have new: "new_entry quiet_sdk 7 ''today?'' ''On it'' ''getEvents'' full_state =
      \<lparr>UserID = 7, Timestamp = Add sample_day (9 * Hour), UserMessage = ''today?'',
       AIResponse = ''On it'', IAction = ''getEvents''\<rparr>"
    by (simp add: new_entry_def quiet_sdk_def sample_sdk_def)
  note run = store_keeps_last_50 [OF bound, of quiet_sdk
      "[(7, ''today?'', ''On it'', ''getEvents''), (8, ''hi'', ''hello'', ''None'')]"
      7 "''today?''" "''On it''" "''getEvents''"]
  from run have all: "\<forall>v. length (stored (database (add_all quiet_sdk
           [(7, ''today?'', ''On it'', ''getEvents''), (8, ''hi'', ''hello'', ''None'')]
           full_state)) v) \<le> 50"
    by blast
  from run full have "stored (database (snd (AddInteraction quiet_sdk 7 ''today?'' ''On it''
        ''getEvents'' full_state))) 7 =
      tl (stored (database full_state) 7) @
      [new_entry quiet_sdk 7 ''today?'' ''On it'' ''getEvents'' full_state]"
    by blast
  then have evicted: "stored (database (snd (AddInteraction quiet_sdk 7 ''today?'' ''On it''
        ''getEvents'' full_state))) 7 =
      replicate 49 sample_interaction @
      [\<lparr>UserID = 7, Timestamp = Add sample_day (9 * Hour), UserMessage = ''today?'',
        AIResponse = ''On it'', IAction = ''getEvents''\<rparr>]"
    by (simp only: old new)
  from bound full all evicted show ?thesis by blast
qed

lemma foldl_append_concat: "foldl (\<lambda>acc x. acc @ f x) acc xs = acc @ concat (map f xs)"
  by (induction xs arbitrary: acc) simp_all

lemma GetUserInteractions_eq:
  "GetUserInteractions d u n =
     (if n \<le> 0 then stored d u else last_n (min (nat n) (length (stored d u))) (stored d u))"
  by (auto simp: GetUserInteractions_def Let_def last_n_def min_def nat_diff_distrib)

text \<open>
  C7. \<open>GetUserContext\<close> with a count of zero or less renders all stored interactions of
  the user; with a positive count \<open>n\<close> it renders the last \<open>min n count\<close> of them; in
  both cases oldest first, each as \<open>User: message, newline, AI: response\<close> and an empty
  line. With nothing stored the result is the empty string.
\<close>

theorem GetUserContext_last_n:
  "GetUserContext d u n =
     concat (map (\<lambda>i. ''User: '' @ UserMessage i @ ''\<newline>AI: '' @ AIResponse i @ ''\<newline>\<newline>'')
       (if n \<le> 0 then stored d u else last_n (min (nat n) (length (stored d u))) (stored d u))) \<and>
   length (if n \<le> 0 then stored d u else last_n (min (nat n) (length (stored d u))) (stored d u)) =
     (if n \<le> 0 then length (stored d u) else min (nat n) (length (stored d u))) \<and>
   (stored d u = [] \<longrightarrow> GetUserContext d u n = '''')"
  apply (intro conjI)
  subgoal
    by (simp add: GetUserContext_def Let_def foldl_append_concat GetUserInteractions_eq
        context_entry_def)
  subgoal by (simp add: last_n_def)
  subgoal by (simp add: GetUserContext_def Let_def GetUserInteractions_def)
  done

theorem GetUserContext_last_n_witness:
  "stored (database sample_state) 7 = [] \<and>
   GetUserContext (database sample_state) 7 10 = '''' \<and>
   GetUserContext (database full_state) 7 1 = ''User: hello\<newline>AI: hi\<newline>\<newline>''"
proof -
  have none: "stored (database sample_state) 7 = []"
    by (simp add: sample_state_def stored_def)
  have one: "last_n (min (nat 1) (length (stored (database full_state) 7)))
               (stored (database full_state) 7) = [sample_interaction]"
    by (simp add: full_state_def sample_state_def stored_def last_n_def)
  show ?thesis
    using GetUserContext_last_n [of "database sample_state" 7 10]
      GetUserContext_last_n [of "database full_state" 7 1] none one
    by (simp add: sample_interaction_def)
qed

section \<open>What each operation adds to the record of calls\<close>

lemma saveInteractions_calls: "calls (snd (saveInteractions c s)) = calls s"
  by (simp add: saveInteractions_def split: sum.splits prod.splits option.splits)

lemma AddInteraction_calls: "calls (snd (AddInteraction c u m r a s)) = calls s"
  by (simp add: AddInteraction_def Let_def saveInteractions_calls)

lemma request_intent_calls: "calls (snd (request_intent c ctx m s)) = calls s"
  by (simp add: request_intent_def Let_def split: sum.splits prod.splits list.splits)

lemma ProcessMessage_calls: "calls (snd (ProcessMessage c ctx m s)) = calls s"
proof -
  have "snd (ProcessMessage c ctx m s) = snd (request_intent c ctx m s)"
    by (simp add: ProcessMessage_def split: sum.splits prod.splits)
  then show ?thesis by (simp add: request_intent_calls)
qed

lemma GetEvents_calls: "calls (snd (GetEvents c svc d s)) = calls s @ [CallGetEvents d]"
  by (simp add: GetEvents_def Let_def split: sum.splits prod.splits)

lemma send_parts_calls: "calls (snd (send_parts c chat n i parts s)) = calls s"
  by (induction parts arbitrary: i s) (simp_all add: Let_def split: prod.splits option.splits)

lemma SendMessage_calls:
  "calls (snd (SendMessage c chat text s)) = calls s @ [CallSendMessage chat text]"
  by (simp add: SendMessage_def sendLongMessage_def Let_def send_parts_calls
      split: prod.splits option.splits)

lemma gateway_calls_append [simp]:
  "gateway_calls (xs @ ys) = gateway_calls xs @ gateway_calls ys"
  by (simp add: gateway_calls_def)

lemma sink_calls_append [simp]: "sink_calls (xs @ ys) = sink_calls xs @ sink_calls ys"
  by (simp add: sink_calls_def)

lemma gateway_calls_simps [simp]:
  "gateway_calls [] = []"
  "gateway_calls (CallSendMessage chat text # tr) = gateway_calls tr"
  "gateway_calls (CallGetEvents d # tr) = CallGetEvents d # gateway_calls tr"
  by (simp_all add: gateway_calls_def)

lemma sink_calls_simps [simp]:
  "sink_calls [] = []"
  "sink_calls (CallSendMessage chat text # tr) = CallSendMessage chat text # sink_calls tr"
  "sink_calls (CallGetEvents d # tr) = sink_calls tr"
  by (simp_all add: sink_calls_def)

section \<open>The message flow\<close>

lemma executeAIAction_no_error: "snd (fst (executeAIAction c svc u ai s)) = None"
  by (simp add: executeAIAction_def Let_def split: prod.split sum.split option.split)

text \<open>After a successful classification the flow is: store, execute, send.\<close>

lemma ProcessUserMessage_classified:
  assumes "ProcessMessage c (GetUserContext (database s) u 10) msg s = (Inr ai, s1)"
    and "AddInteraction c u msg (Message ai) (Action ai) s1 = (storeErr, s2)"
    and "executeAIAction c svc u ai s2 = ((response, err), s3)"
  shows "ProcessUserMessage c svc u chat msg s = SendMessage c chat response s3"
proof -
  have "err = None"
    using executeAIAction_no_error [of c svc u ai s2] assms(3) by simp
  then show ?thesis
    using assms by (simp add: ProcessUserMessage_def Let_def split: prod.splits option.splits)
qed

lemma ProcessUserMessage_classified_calls:
  assumes "ProcessMessage c (GetUserContext (database s) u 10) msg s = (Inr ai, s1)"
    and "AddInteraction c u msg (Message ai) (Action ai) s1 = (storeErr, s2)"
    and "executeAIAction c svc u ai s2 = ((response, err), s3)"
  shows "calls s2 = calls s"
    and "calls (snd (ProcessUserMessage c svc u chat msg s)) =
         calls s3 @ [CallSendMessage chat response]"
proof -
  have "calls s1 = calls s"
    using ProcessMessage_calls [of c "GetUserContext (database s) u 10" msg s] assms(1) by simp
  moreover have "calls s2 = calls s1"
    using AddInteraction_calls [of c u msg "Message ai" "Action ai" s1] assms(2) by simp
  ultimately show "calls s2 = calls s" by simp
  show "calls (snd (ProcessUserMessage c svc u chat msg s)) =
        calls s3 @ [CallSendMessage chat response]"
    by (simp add: ProcessUserMessage_classified [OF assms] SendMessage_calls)
qed

section \<open>Runs in the sample environment\<close>

lemma unit_world [simp]: "(s :: unit state)\<lparr>world := w\<rparr> = s"
  by simp

lemma sample_sdk_fields:
  "time_Now (sample_sdk completion decoded listing sendResult writeResult) w =
     Add sample_day (9 * Hour)"
  "time_Parse (sample_sdk completion decoded listing sendResult writeResult) = sample_Parse"
  "time_Format (sample_sdk completion decoded listing sendResult writeResult) = sample_Format"
  "CreateChatCompletion (sample_sdk completion decoded listing sendResult writeResult) w t p =
     (completion, w)"
  "Unmarshal_AIResponse (sample_sdk completion decoded listing sendResult writeResult) x =
     decoded"
  "Events_List (sample_sdk completion decoded listing sendResult writeResult) w cal tmin tmax =
     (listing tmin, w)"
  "Events_Delete (sample_sdk completion decoded listing sendResult writeResult) w cal eid =
     (None, w)"
  "bot_Send (sample_sdk completion decoded listing sendResult writeResult) w chat text =
     (sendResult, w)"
  "MarshalIndent (sample_sdk completion decoded listing sendResult writeResult) table =
     Inr ''{}''"
  "os_WriteFile (sample_sdk completion decoded listing sendResult writeResult) w path data =
     (writeResult, w)"
  by (simp_all add: sample_sdk_def)

lemma sample_request_intent:
  "request_intent (sample_sdk (Inr (x # xs)) (Inr r) listing sendResult writeResult) ctx msg s =
     (Inr r, s)"
  by (simp add: request_intent_def sample_sdk_fields Let_def)

lemma sample_request_failure:
  "request_intent (sample_sdk (Inl e) decoded listing sendResult writeResult) ctx msg s =
     (Inl (''OpenAI API error: '' @ e), s)"
  by (simp add: request_intent_def sample_sdk_fields Let_def)

lemma sample_day_start:
  "day_start (sample_sdk completion decoded listing sendResult writeResult) w ''2025-08-05'' =
     Inr sample_day"
  by (simp add: day_start_def sample_sdk_fields sample_Parse_def)

lemma sample_day_start_today:
  "day_start (sample_sdk completion decoded listing sendResult writeResult) w ''today'' =
     Inr sample_day"
  by (simp add: day_start_def sample_sdk_fields sample_day_def Add_def Truncate_def Hour_def)

lemma sample_day_start_someday:
  "day_start (sample_sdk completion decoded listing sendResult writeResult) w ''someday'' =
     Inl ''invalid date format: cannot parse someday''"
  by (simp add: day_start_def sample_sdk_fields sample_Parse_def)

lemma sample_time_text: "sample_Format RFC3339 sample_day = ''1754352000''"
  by (simp add: sample_Format_def RFC3339_def sample_day_def Sprintf_d_def Itoa.simps)

lemma sample_GetEvents_day:
  assumes "d = ''2025-08-05'' \<or> d = ''today''"
  shows "GetEvents (sample_sdk completion decoded listing sendResult writeResult) svc d s =
     (case listing ''1754352000'' of
        Inl err \<Rightarrow> Inl (''failed to get events: '' @ err)
      | Inr items \<Rightarrow>
          Inr (map (to_CalendarEvent
                 (sample_sdk completion decoded listing sendResult writeResult)) items),
      s\<lparr>calls := calls s @ [CallGetEvents d]\<rparr>)"
proof -
  have "day_start (sample_sdk completion decoded listing sendResult writeResult) w
          (if d = [] then ''today'' else d) = Inr sample_day" for w
    using assms by (auto simp: sample_day_start sample_day_start_today)
  then show ?thesis
    by (simp add: GetEvents_def Let_def sample_sdk_fields sample_time_text split: sum.splits)
qed

lemma sample_GetEvents_someday:
  "GetEvents (sample_sdk completion decoded listing sendResult writeResult) svc ''someday'' s =
     (Inl ''invalid date format: cannot parse someday'',
      s\<lparr>calls := calls s @ [CallGetEvents ''someday'']\<rparr>)"
  by (simp add: GetEvents_def Let_def sample_day_start_someday)

section \<open>Dispatch of a single action\<close>

text \<open>
  C9. When the intent has no sub-intents, its action is \<open>getEvents\<close> and the calendar
  service returns no events, the response is \<open>No events found for\<close>, the intent's date
  and a full stop, whatever the date is; that text is what the flow hands to the
  notification sink.
\<close>

theorem no_events_response:
  assumes "Actions ai = []" and "Action ai = ''getEvents''"
    and "GetEvents c svc (EventDate ai) s2 = (Inr [], s3)"
  shows "executeAIAction c svc u ai s2 =
           ((''No events found for '' @ EventDate ai @ ''.'', None), s3) \<and>
         (ProcessMessage c (GetUserContext (database s) u 10) msg s = (Inr ai, s1) \<longrightarrow>
          AddInteraction c u msg (Message ai) (Action ai) s1 = (storeErr, s2) \<longrightarrow>
          sink_calls (calls (snd (ProcessUserMessage c svc u chat msg s))) =
            sink_calls (calls s) @
            [CallSendMessage chat (''No events found for '' @ EventDate ai @ ''.'')])"
proof -
  have exec: "executeAIAction c svc u ai s2 =
      ((''No events found for '' @ EventDate ai @ ''.'', None), s3)"
    using assms by (simp add: executeAIAction_def)
  have s3: "calls s3 = calls s2 @ [CallGetEvents (EventDate ai)]"
    using GetEvents_calls [of c svc "EventDate ai" s2] assms(3) by simp
  show ?thesis
  proof (intro conjI impI)
    show "executeAIAction c svc u ai s2 =
        ((''No events found for '' @ EventDate ai @ ''.'', None), s3)"
      by (rule exec)
  next
    assume p: "ProcessMessage c (GetUserContext (database s) u 10) msg s = (Inr ai, s1)"
      and a: "AddInteraction c u msg (Message ai) (Action ai) s1 = (storeErr, s2)"
    show "sink_calls (calls (snd (ProcessUserMessage c svc u chat msg s))) =
        sink_calls (calls s) @
        [CallSendMessage chat (''No events found for '' @ EventDate ai @ ''.'')]"
      using ProcessUserMessage_classified_calls [OF p a exec] s3 by simp
  qed
qed

theorem no_events_response_witness:
  "fst (fst (executeAIAction free_day_sdk sample_service 7
         (intent ''getEvents'' ''2025-08-05'' '''' []) sample_state)) =
     ''No events found for 2025-08-05.'' \<and>
   sink_calls (calls (snd (ProcessUserMessage free_day_sdk sample_service 7 99
         ''anything on the 5th?'' sample_state))) =
     [CallSendMessage 99 ''No events found for 2025-08-05.'']"
proof -
  let ?ai = "intent ''getEvents'' ''2025-08-05'' '''' []"
  let ?s2 = "snd (AddInteraction free_day_sdk 7 ''anything on the 5th?'' (Message ?ai)
                (Action ?ai) sample_state)"
  have fields: "Actions ?ai = []" "Action ?ai = ''getEvents''" "EventDate ?ai = ''2025-08-05''"
    by (simp_all add: intent_def)
  have get: "GetEvents free_day_sdk sample_service (EventDate ?ai) t =
      (Inr [], t\<lparr>calls := calls t @ [CallGetEvents ''2025-08-05'']\<rparr>)" for t
    by (simp add: fields free_day_sdk_def sample_GetEvents_day)
  have classified: "ProcessMessage free_day_sdk (GetUserContext (database sample_state) 7 10)
      ''anything on the 5th?'' sample_state = (Inr ?ai, sample_state)"
    by (simp add: ProcessMessage_def free_day_sdk_def sample_request_intent fields)
  have stored: "AddInteraction free_day_sdk 7 ''anything on the 5th?'' (Message ?ai)
      (Action ?ai) sample_state =
      (fst (AddInteraction free_day_sdk 7 ''anything on the 5th?'' (Message ?ai) (Action ?ai)
         sample_state), ?s2)"
    by simp
  have direct: "fst (fst (executeAIAction free_day_sdk sample_service 7 ?ai sample_state)) =
      ''No events found for 2025-08-05.''"
    using no_events_response [OF fields(1,2) get, where ?s2.0 = sample_state and u = 7]
    by (simp add: fields)
  note run = no_events_response [OF fields(1,2) get, where ?s2.0 = ?s2 and u = 7
      and s = sample_state and msg = "''anything on the 5th?''" and ?s1.0 = sample_state
      and chat = 99 and storeErr = "fst (AddInteraction free_day_sdk 7
        ''anything on the 5th?'' (Message ?ai) (Action ?ai) sample_state)"]
  from run classified stored
  have "sink_calls (calls (snd (ProcessUserMessage free_day_sdk sample_service 7 99
         ''anything on the 5th?'' sample_state))) =
     sink_calls (calls sample_state) @
     [CallSendMessage 99 (''No events found for '' @ EventDate ?ai @ ''.'')]"
    by blast
  then have sink: "sink_calls (calls (snd (ProcessUserMessage free_day_sdk sample_service 7 99
         ''anything on the 5th?'' sample_state))) =
     [CallSendMessage 99 ''No events found for 2025-08-05.'']"
    by (simp add: fields sample_state_def)
  from direct sink show ?thesis by simp
qed

lemma ProcessUserMessage_calls:
  assumes "ProcessMessage c (GetUserContext (database s) u 10) msg s = (Inr ai, s1)"
  shows "calls (snd (ProcessUserMessage c svc u chat msg s)) =
         calls (snd (executeAIAction c svc u ai
                  (snd (AddInteraction c u msg (Message ai) (Action ai) s1)))) @
         [CallSendMessage chat
            (fst (fst (executeAIAction c svc u ai
                  (snd (AddInteraction c u msg (Message ai) (Action ai) s1)))))]"
proof -
  let ?s2 = "snd (AddInteraction c u msg (Message ai) (Action ai) s1)"
  let ?r = "executeAIAction c svc u ai ?s2"
  have a: "AddInteraction c u msg (Message ai) (Action ai) s1 =
      (fst (AddInteraction c u msg (Message ai) (Action ai) s1), ?s2)"
    by simp
  have e: "?r = ((fst (fst ?r), snd (fst ?r)), snd ?r)"
    by simp
  show ?thesis
    by (rule ProcessUserMessage_classified_calls(2) [OF assms a e])
qed

lemma stored_calls:
  assumes "ProcessMessage c (GetUserContext (database s) u 10) msg s = (Inr ai, s1)"
  shows "calls (snd (AddInteraction c u msg (Message ai) (Action ai) s1)) = calls s"
  using ProcessMessage_calls [of c "GetUserContext (database s) u 10" msg s] assms
  by (simp add: AddInteraction_calls)

text \<open>
  C5. For an intent without sub-intents whose action is \<open>delEvents\<close> or \<open>updtEvent\<close>
  and whose event ID is empty, the dispatch leaves the state as it was, so no calendar
  call is made, and answers with the instruction to list the events first; the message
  flow for such an intent makes no call on the calendar service and hands that
  instruction to the notification sink.
\<close>

theorem missing_event_id:
  assumes "Actions ai = []"
    and "Action ai = ''delEvents'' \<or> Action ai = ''updtEvent''"
    and "EventID ai = ''''"
  shows "executeAIAction c svc u ai t =
           ((''Please specify an event ID to '' @
             (if Action ai = ''delEvents'' then ''delete'' else ''update'') @
             ''. Use 'getEvents' first to see available events.'', None), t) \<and>
         (ProcessMessage c (GetUserContext (database s) u 10) msg s = (Inr ai, s1) \<longrightarrow>
            gateway_calls (calls (snd (ProcessUserMessage c svc u chat msg s))) =
              gateway_calls (calls s) \<and>
            sink_calls (calls (snd (ProcessUserMessage c svc u chat msg s))) =
              sink_calls (calls s) @
              [CallSendMessage chat
                 (''Please specify an event ID to '' @
                  (if Action ai = ''delEvents'' then ''delete'' else ''update'') @
                  ''. Use 'getEvents' first to see available events.'')])"
proof -
  have exec: "executeAIAction c svc u ai t =
           ((''Please specify an event ID to '' @
             (if Action ai = ''delEvents'' then ''delete'' else ''update'') @
             ''. Use 'getEvents' first to see available events.'', None), t)" for t
    using assms by (auto simp: executeAIAction_def)
  show ?thesis
  proof (intro conjI impI)
    show "executeAIAction c svc u ai t =
           ((''Please specify an event ID to '' @
             (if Action ai = ''delEvents'' then ''delete'' else ''update'') @
             ''. Use 'getEvents' first to see available events.'', None), t)"
      by (rule exec)
  next
    assume p: "ProcessMessage c (GetUserContext (database s) u 10) msg s = (Inr ai, s1)"
    note tr = ProcessUserMessage_calls [OF p, of svc chat] stored_calls [OF p]
    show "gateway_calls (calls (snd (ProcessUserMessage c svc u chat msg s))) =
        gateway_calls (calls s)"
      by (simp add: tr exec)
    show "sink_calls (calls (snd (ProcessUserMessage c svc u chat msg s))) =
        sink_calls (calls s) @
        [CallSendMessage chat
           (''Please specify an event ID to '' @
            (if Action ai = ''delEvents'' then ''delete'' else ''update'') @
            ''. Use 'getEvents' first to see available events.'')]"
      by (simp add: tr exec)
  qed
qed

theorem missing_event_id_witness:
  "executeAIAction no_id_sdk sample_service 7 (intent ''delEvents'' '''' '''' []) sample_state =
     ((''Please specify an event ID to delete. Use 'getEvents' first to see available events.'',
       None), sample_state) \<and>
   gateway_calls (calls (snd (ProcessUserMessage no_id_sdk sample_service 7 99
     ''drop my meeting'' sample_state))) = [] \<and>
   sink_calls (calls (snd (ProcessUserMessage no_id_sdk sample_service 7 99
     ''drop my meeting'' sample_state))) =
     [CallSendMessage 99
        ''Please specify an event ID to delete. Use 'getEvents' first to see available events.'']"
proof -
  let ?ai = "intent ''delEvents'' '''' '''' []"
  have fields: "Actions ?ai = []" "Action ?ai = ''delEvents'' \<or> Action ?ai = ''updtEvent''"
      "EventID ?ai = ''''"
    by (simp_all add: intent_def)
  have classified: "ProcessMessage no_id_sdk (GetUserContext (database sample_state) 7 10)
      ''drop my meeting'' sample_state = (Inr ?ai, sample_state)"
    by (simp add: ProcessMessage_def no_id_sdk_def sample_request_intent intent_def)
  note run = missing_event_id [OF fields, where c = no_id_sdk and svc = sample_service
      and u = 7 and t = sample_state and s = sample_state
      and msg = "''drop my meeting''" and ?s1.0 = sample_state and chat = 99]
  from run have direct: "executeAIAction no_id_sdk sample_service 7 ?ai sample_state =
     ((''Please specify an event ID to delete. Use 'getEvents' first to see available events.'',
       None), sample_state)"
    by (simp add: intent_def)
  from run classified
  have "gateway_calls (calls (snd (ProcessUserMessage no_id_sdk sample_service 7 99
           ''drop my meeting'' sample_state))) = gateway_calls (calls sample_state) \<and>
        sink_calls (calls (snd (ProcessUserMessage no_id_sdk sample_service 7 99
           ''drop my meeting'' sample_state))) =
        sink_calls (calls sample_state) @
        [CallSendMessage 99
           (''Please specify an event ID to '' @
            (if Action ?ai = ''delEvents'' then ''delete'' else ''update'') @
            ''. Use 'getEvents' first to see available events.'')]"
    by blast
  then have flow: "gateway_calls (calls (snd (ProcessUserMessage no_id_sdk sample_service 7 99
           ''drop my meeting'' sample_state))) = [] \<and>
        sink_calls (calls (snd (ProcessUserMessage no_id_sdk sample_service 7 99
           ''drop my meeting'' sample_state))) =
        [CallSendMessage 99
           ''Please specify an event ID to delete. Use 'getEvents' first to see available events.'']"
    by (simp add: sample_state_def intent_def)
  from direct flow show ?thesis by simp
qed

lemma executeAIAction_getEvents_calls:
  assumes "Actions ai = []" and "Action ai = ''getEvents''"
  shows "calls (snd (executeAIAction c svc u ai s)) = calls s @ [CallGetEvents (EventDate ai)]"
proof -
  obtain r s' where g: "GetEvents c svc (EventDate ai) s = (r, s')"
    by (cases "GetEvents c svc (EventDate ai) s")
  have "snd (executeAIAction c svc u ai s) = s'"
    using assms g by (simp add: executeAIAction_def Let_def split: sum.splits)
  moreover have "calls s' = calls s @ [CallGetEvents (EventDate ai)]"
    using GetEvents_calls [of c svc "EventDate ai" s] g by simp
  ultimately show ?thesis by simp
qed

lemma GetEvents_empty_date:
  "fst (GetEvents c svc '''' t) = fst (GetEvents c svc ''today'' t) \<and>
   world (snd (GetEvents c svc '''' t)) = world (snd (GetEvents c svc ''today'' t))"
  by (simp add: GetEvents_def Let_def split: sum.splits prod.splits)

text \<open>
  C6. When the decoded response of the classifier has action \<open>getEvents\<close>, an empty
  event date and no sub-intents, \<open>ProcessMessage\<close> returns it with the date \<open>today\<close>, and
  the one call the message flow then makes on the calendar service is \<open>GetEvents\<close> with
  \<open>today\<close>. The calendar service itself reads an empty date string as \<open>today\<close>.
\<close>

theorem empty_date_defaults_to_today:
  assumes "request_intent c (GetUserContext (database s) u 10) msg s = (Inr r, s1)"
    and "Action r = ''getEvents''" and "EventDate r = ''''" and "Actions r = []"
  shows "ProcessMessage c (GetUserContext (database s) u 10) msg s =
           (Inr (r\<lparr>EventDate := ''today''\<rparr>), s1) \<and>
         gateway_calls (calls (snd (ProcessUserMessage c svc u chat msg s))) =
           gateway_calls (calls s) @ [CallGetEvents ''today''] \<and>
         fst (GetEvents c svc '''' t) = fst (GetEvents c svc ''today'' t) \<and>
         world (snd (GetEvents c svc '''' t)) = world (snd (GetEvents c svc ''today'' t))"
proof -
  let ?ai = "r\<lparr>EventDate := ''today''\<rparr>"
  have p: "ProcessMessage c (GetUserContext (database s) u 10) msg s = (Inr ?ai, s1)"
    using assms by (simp add: ProcessMessage_def)
  have ai: "Actions ?ai = []" "Action ?ai = ''getEvents''" "EventDate ?ai = ''today''"
    using assms by simp_all
  have "gateway_calls (calls (snd (ProcessUserMessage c svc u chat msg s))) =
      gateway_calls (calls s) @ [CallGetEvents ''today'']"
    by (simp only: ProcessUserMessage_calls [OF p] stored_calls [OF p]
        executeAIAction_getEvents_calls [OF ai(1,2)] ai(3)
        gateway_calls_append gateway_calls_simps append_Nil2)
  with p GetEvents_empty_date [of c svc t] show ?thesis by simp
qed

theorem empty_date_defaults_to_today_witness:
  "ProcessMessage undated_sdk (GetUserContext (database sample_state) 7 10) ''my day?''
     sample_state = (Inr (intent ''getEvents'' ''today'' '''' []), sample_state) \<and>
   gateway_calls (calls (snd (ProcessUserMessage undated_sdk sample_service 7 99 ''my day?''
     sample_state))) = [CallGetEvents ''today'']"
proof -
  let ?r = "intent ''getEvents'' '''' '''' []"
  have decoded: "request_intent undated_sdk (GetUserContext (database sample_state) 7 10)
      ''my day?'' sample_state = (Inr ?r, sample_state)"
    by (simp add: undated_sdk_def sample_request_intent)
  have fields: "Action ?r = ''getEvents''" "EventDate ?r = ''''" "Actions ?r = []"
    by (simp_all add: intent_def)
  have today: "?r\<lparr>EventDate := ''today''\<rparr> = intent ''getEvents'' ''today'' '''' []"
    by (simp add: intent_def)
  show ?thesis
    using empty_date_defaults_to_today [OF decoded fields, of sample_service 99 sample_state]
    by (simp add: today sample_state_def)
qed

section \<open>Rendering of event lists\<close>

lemma show_event_line: "show_event c response event = response @ event_line c event"
  by (simp add: show_event_def event_line_def Let_def)

lemma foldl_show_event:
  "foldl (show_event c) response events = response @ concat (map (event_line c) events)"
  by (induction events arbitrary: response) (simp_all add: show_event_line)

lemma Sprintf_d_values:
  "Sprintf_d 5 = ''5''" "Sprintf_d 15 = ''15''" "Sprintf_d 20 = ''20''" "Sprintf_d 25 = ''25''"
  by (simp_all add: Sprintf_d_def Itoa.simps)

lemma single_listing:
  assumes "Actions ai = []" and "Action ai = ''getEvents''"
    and "GetEvents c svc (EventDate ai) s = (Inr events, s')"
    and "length events > 20"
  shows "executeAIAction c svc u ai s =
           ((''Events for '' @ EventDate ai @ '' (showing first 20 of '' @
             Sprintf_d (int (length events)) @ ''):\<newline>'' @
             concat (map (event_line c) (take 20 events)) @
             ''\<newline>... and '' @ Sprintf_d (int (length events) - 20) @
             '' more events. Use a more specific date range to see fewer events.'', None), s')"
proof -
  have "events \<noteq> []" using assms(4) by auto
  then show ?thesis
    using assms
    by (simp add: executeAIAction_def Let_def events_header_def events_to_show_def
        foldl_show_event Sprintf_d_values)
qed

lemma action_step_getEvents:
  assumes "Action a = ''getEvents''" and "GetEvents c svc (EventDate a) s = (r, s')"
  shows "action_step c svc a response s = (response @ step_block c (EventDate a) r, s')"
proof (cases r)
  case (Inl err)
  then show ?thesis using assms by (simp add: action_step_def step_block_def)
next
  case (Inr events)
  show ?thesis
  proof (cases "events = []")
    case True
    then show ?thesis using assms Inr by (simp add: action_step_def step_block_def)
  next
    case False
    then show ?thesis
      using assms Inr
      by (simp add: action_step_def step_block_def Let_def events_header_def
          events_to_show_def foldl_show_event Sprintf_d_values)
  qed
qed

lemma action_step_unknown:
  "Action a \<noteq> ''getEvents'' \<Longrightarrow>
   action_step c svc a response s = (response @ ''Unknown action: '' @ Action a @ ''\<newline>'', s)"
  by (simp add: action_step_def)

text \<open>
  C4 (as the code has it). When a single \<open>getEvents\<close> intent receives more than 20 events,
  the response is the header \<open>Events for date (showing first 20 of count):\<close>, the lines of
  the first 20 events, a line break and the footer
  \<open>... and N more events. Use a more specific date range to see fewer events.\<close> with
  \<open>N = count - 20\<close>; for 25 events the footer starts \<open>... and 5 more events.\<close> and goes on
  with that advice. Inside a multi-action block more than 15 events are cut to the first
  15, followed by the line \<open>... and N more events.\<close> with \<open>N = count - 15\<close>.
\<close>

theorem truncated_listing:
  assumes "Actions ai = []" and "Action ai = ''getEvents''"
    and "GetEvents c svc (EventDate ai) s = (Inr events, s')"
    and "length events > 20"
  shows "executeAIAction c svc u ai s =
           ((''Events for '' @ EventDate ai @ '' (showing first 20 of '' @
             Sprintf_d (int (length events)) @ ''):\<newline>'' @
             concat (map (event_line c) (take 20 events)) @
             ''\<newline>... and '' @ Sprintf_d (int (length events) - 20) @
             '' more events. Use a more specific date range to see fewer events.'', None), s') \<and>
         (length events = 25 \<longrightarrow>
            fst (fst (executeAIAction c svc u ai s)) =
              ''Events for '' @ EventDate ai @ '' (showing first 20 of 25):\<newline>'' @
              concat (map (event_line c) (take 20 events)) @
              ''\<newline>... and 5 more events. Use a more specific date range to see fewer events.'') \<and>
         (Action a = ''getEvents'' \<longrightarrow> GetEvents c svc (EventDate a) t = (Inr many, t') \<longrightarrow>
          length many > 15 \<longrightarrow>
            action_step c svc a response t =
              (response @ ''Events for '' @ EventDate a @ '' (showing first 15 of '' @
               Sprintf_d (int (length many)) @ ''):\<newline>'' @
               concat (map (event_line c) (take 15 many)) @
               ''... and '' @ Sprintf_d (int (length many) - 15) @ '' more events.\<newline>'' @
               ''\<newline>'', t'))"
proof (intro conjI impI)
  show single: "executeAIAction c svc u ai s =
           ((''Events for '' @ EventDate ai @ '' (showing first 20 of '' @
             Sprintf_d (int (length events)) @ ''):\<newline>'' @
             concat (map (event_line c) (take 20 events)) @
             ''\<newline>... and '' @ Sprintf_d (int (length events) - 20) @
             '' more events. Use a more specific date range to see fewer events.'', None), s')"
    by (rule single_listing [OF assms])
  show "fst (fst (executeAIAction c svc u ai s)) =
      ''Events for '' @ EventDate ai @ '' (showing first 20 of 25):\<newline>'' @
      concat (map (event_line c) (take 20 events)) @
      ''\<newline>... and 5 more events. Use a more specific date range to see fewer events.''"
    if "length events = 25"
    using that by (simp add: single Sprintf_d_values)
  show "action_step c svc a response t =
      (response @ ''Events for '' @ EventDate a @ '' (showing first 15 of '' @
       Sprintf_d (int (length many)) @ ''):\<newline>'' @
       concat (map (event_line c) (take 15 many)) @
       ''... and '' @ Sprintf_d (int (length many) - 15) @ '' more events.\<newline>'' @
       ''\<newline>'', t')"
    if "Action a = ''getEvents''" and "GetEvents c svc (EventDate a) t = (Inr many, t')"
      and "length many > 15"
  proof -
    have "many \<noteq> []" using that(3) by auto
    then show ?thesis
      using that(3) by (simp add: action_step_getEvents [OF that(1,2)] step_block_def)
  qed
qed

lemma busy_day:
  "GetEvents busy_sdk sample_service ''today'' s =
     (Inr (map (to_CalendarEvent busy_sdk) (replicate 25 standup)),
      s\<lparr>calls := calls s @ [CallGetEvents ''today'']\<rparr>)"
  by (simp add: busy_sdk_def sample_GetEvents_day)

lemma standup_line: "event_line busy_sdk (to_CalendarEvent busy_sdk standup) =
    bullet @ '' Standup (00:00 - 00:00)\<newline>''"
  by (simp add: event_line_def to_CalendarEvent_def busy_sdk_def sample_sdk_fields
      parse_or_zero_def sample_Parse_def standup_def sample_Format_def sample_day_def
      pad2_def Sprintf_d_def Itoa.simps)

theorem truncated_listing_witness:
  "fst (fst (executeAIAction busy_sdk sample_service 7 (intent ''getEvents'' ''today'' '''' [])
      sample_state)) =
     ''Events for today (showing first 20 of 25):\<newline>'' @
     concat (replicate 20 (bullet @ '' Standup (00:00 - 00:00)\<newline>'')) @
     ''\<newline>... and 5 more events. Use a more specific date range to see fewer events.'' \<and>
   fst (action_step busy_sdk sample_service (sub_intent ''getEvents'' ''today'') ''Monday:''
      sample_state) =
     ''Monday:Events for today (showing first 15 of 25):\<newline>'' @
     concat (replicate 15 (bullet @ '' Standup (00:00 - 00:00)\<newline>'')) @
     ''... and 10 more events.\<newline>\<newline>''"
proof -
  let ?ai = "intent ''getEvents'' ''today'' '''' []"
  let ?a = "sub_intent ''getEvents'' ''today''"
  let ?events = "map (to_CalendarEvent busy_sdk) (replicate 25 standup)"
  have fields: "Actions ?ai = []" "Action ?ai = ''getEvents''"
    by (simp_all add: intent_def)
  have get: "GetEvents busy_sdk sample_service (EventDate ?ai) sample_state =
      (Inr ?events, sample_state\<lparr>calls := calls sample_state @ [CallGetEvents ''today'']\<rparr>)"
    by (simp add: intent_def busy_day)
  have get': "GetEvents busy_sdk sample_service (EventDate ?a) sample_state =
      (Inr ?events, sample_state\<lparr>calls := calls sample_state @ [CallGetEvents ''today'']\<rparr>)"
    by (simp add: sub_intent_def busy_day)
  have many: "length ?events > 20" "length ?events = 25" "length ?events > 15"
      "Action ?a = ''getEvents''"
    by (simp_all add: sub_intent_def)
  have ten: "Sprintf_d 10 = ''10''"
    by (simp add: Sprintf_d_def Itoa.simps)
  have lines: "map (event_line busy_sdk) (take n ?events) =
      replicate (min n 25) (bullet @ '' Standup (00:00 - 00:00)\<newline>'')" for n
    by (simp add: take_map standup_line)
  note run = truncated_listing [OF fields get many(1), where u = 7 and a = ?a
      and t = sample_state and response = "''Monday:''" and many = ?events
      and t' = "sample_state\<lparr>calls := calls sample_state @ [CallGetEvents ''today'']\<rparr>"]
  from run many(2) have "fst (fst (executeAIAction busy_sdk sample_service 7 ?ai sample_state)) =
      ''Events for '' @ EventDate ?ai @ '' (showing first 20 of 25):\<newline>'' @
      concat (map (event_line busy_sdk) (take 20 ?events)) @
      ''\<newline>... and 5 more events. Use a more specific date range to see fewer events.''"
    by blast
  then have single: "fst (fst (executeAIAction busy_sdk sample_service 7 ?ai sample_state)) =
     ''Events for today (showing first 20 of 25):\<newline>'' @
     concat (replicate 20 (bullet @ '' Standup (00:00 - 00:00)\<newline>'')) @
     ''\<newline>... and 5 more events. Use a more specific date range to see fewer events.''"
    by (simp only: lines) (simp add: intent_def)
  from run many(3,4) get'
  have "action_step busy_sdk sample_service ?a ''Monday:'' sample_state =
      (''Monday:'' @ ''Events for '' @ EventDate ?a @ '' (showing first 15 of '' @
       Sprintf_d (int (length ?events)) @ ''):\<newline>'' @
       concat (map (event_line busy_sdk) (take 15 ?events)) @
       ''... and '' @ Sprintf_d (int (length ?events) - 15) @ '' more events.\<newline>'' @
       ''\<newline>'', sample_state\<lparr>calls := calls sample_state @ [CallGetEvents ''today'']\<rparr>)"
    by blast
  then have multi: "fst (action_step busy_sdk sample_service ?a ''Monday:'' sample_state) =
     ''Monday:Events for today (showing first 15 of 25):\<newline>'' @
     concat (replicate 15 (bullet @ '' Standup (00:00 - 00:00)\<newline>'')) @
     ''... and 10 more events.\<newline>\<newline>''"
    by (simp only: lines) (simp add: sub_intent_def Sprintf_d_values ten)
  from single multi show ?thesis by simp
qed

theorem footer_is_longer_counterexample:
  "\<not> suffix ''... and 5 more events.''
       (fst (fst (executeAIAction busy_sdk sample_service 7
          (intent ''getEvents'' ''today'' '''' []) sample_state)))"
proof -
  let ?ai = "intent ''getEvents'' ''today'' '''' []"
  let ?events = "map (to_CalendarEvent busy_sdk) (replicate 25 standup)"
  have fields: "Actions ?ai = []" "Action ?ai = ''getEvents''"
    by (simp_all add: intent_def)
  have get: "GetEvents busy_sdk sample_service (EventDate ?ai) sample_state =
      (Inr ?events, sample_state\<lparr>calls := calls sample_state @ [CallGetEvents ''today'']\<rparr>)"
    by (simp add: intent_def busy_day)
  have many: "length ?events > 20"
    by simp
  obtain listed where "fst (fst (executeAIAction busy_sdk sample_service 7 ?ai sample_state)) =
      listed @ ''fewer events.''"
    using single_listing [OF fields get many, of 7] by simp
  then show ?thesis
    by (simp add: suffix_to_prefix)
qed

section \<open>Multi-action intents\<close>

lemma action_step_calls:
  "calls (snd (action_step c svc a response s)) =
     calls s @ (if Action a = ''getEvents'' then [CallGetEvents (EventDate a)] else [])"
proof (cases "Action a = ''getEvents''")
  case True
  obtain r s' where g: "GetEvents c svc (EventDate a) s = (r, s')"
    by (cases "GetEvents c svc (EventDate a) s")
  have "calls s' = calls s @ [CallGetEvents (EventDate a)]"
    using GetEvents_calls [of c svc "EventDate a" s] g by simp
  then show ?thesis
    using True by (simp add: action_step_getEvents [OF True g])
next
  case False
  then show ?thesis by (simp add: action_step_unknown)
qed

lemma multi_actions_calls:
  "calls (snd (multi_actions c svc steps response s)) =
     calls s @ map (\<lambda>a. CallGetEvents (EventDate a))
                 (filter (\<lambda>a. Action a = ''getEvents'') steps)"
proof (induction steps arbitrary: response s)
  case Nil
  then show ?case by simp
next
  case (Cons a steps)
  obtain r s' where st: "action_step c svc a response s = (r, s')"
    by (cases "action_step c svc a response s")
  have "calls s' = calls s @ (if Action a = ''getEvents'' then [CallGetEvents (EventDate a)] else [])"
    using action_step_calls [of c svc a response s] st by simp
  then show ?case
    using Cons.IH [of r s'] by (simp add: st)
qed

text \<open>
  C3. For an intent with three \<open>getEvents\<close> sub-intents, whatever each calendar call
  returns, the response is the top-level message, an empty line and the three result
  blocks in order; all three calendar calls are made; the block of a failed call is the
  line \<open>Error getting events for date: cause\<close>; and the message flow hands that response to
  the notification sink in one call. A sub-intent with any other action adds the line
  \<open>Unknown action: X\<close> and the loop goes on with the rest. For any list of
  sub-intents, every \<open>getEvents\<close> step makes its calendar call, in order, whatever the
  earlier steps returned.
\<close>

theorem multi_action_three_steps:
  assumes "Actions ai = [a1, a2, a3]"
    and "Action a1 = ''getEvents''" and "Action a2 = ''getEvents''"
    and "Action a3 = ''getEvents''"
    and "GetEvents c svc (EventDate a1) s2 = (r1, sa)"
    and "GetEvents c svc (EventDate a2) sa = (r2, sb)"
    and "GetEvents c svc (EventDate a3) sb = (r3, sc)"
  shows "executeAIAction c svc u ai s2 =
           ((Message ai @ ''\<newline>\<newline>'' @ step_block c (EventDate a1) r1 @
             step_block c (EventDate a2) r2 @ step_block c (EventDate a3) r3, None), sc) \<and>
         calls sc = calls s2 @ [CallGetEvents (EventDate a1), CallGetEvents (EventDate a2),
                                CallGetEvents (EventDate a3)] \<and>
         step_block c date (Inl cause) =
           ''Error getting events for '' @ date @ '': '' @ cause @ ''\<newline>'' \<and>
         (ProcessMessage c (GetUserContext (database s) u 10) msg s = (Inr ai, s1) \<longrightarrow>
          AddInteraction c u msg (Message ai) (Action ai) s1 = (storeErr, s2) \<longrightarrow>
            gateway_calls (calls (snd (ProcessUserMessage c svc u chat msg s))) =
              gateway_calls (calls s) @
              [CallGetEvents (EventDate a1), CallGetEvents (EventDate a2),
               CallGetEvents (EventDate a3)] \<and>
            sink_calls (calls (snd (ProcessUserMessage c svc u chat msg s))) =
              sink_calls (calls s) @
              [CallSendMessage chat
                 (Message ai @ ''\<newline>\<newline>'' @ step_block c (EventDate a1) r1 @
                  step_block c (EventDate a2) r2 @ step_block c (EventDate a3) r3)]) \<and>
         (Action x \<noteq> ''getEvents'' \<longrightarrow>
            multi_actions c svc (x # rest) response t =
              multi_actions c svc rest (response @ ''Unknown action: '' @ Action x @ ''\<newline>'') t) \<and>
         calls (snd (multi_actions c svc steps response t)) =
           calls t @ map (\<lambda>a. CallGetEvents (EventDate a))
                       (filter (\<lambda>a. Action a = ''getEvents'') steps)"
proof -
  let ?response = "Message ai @ ''\<newline>\<newline>'' @ step_block c (EventDate a1) r1 @
      step_block c (EventDate a2) r2 @ step_block c (EventDate a3) r3"
  have exec: "executeAIAction c svc u ai s2 = ((?response, None), sc)"
    by (simp add: executeAIAction_def assms(1)
        action_step_getEvents [OF assms(2) assms(5)]
        action_step_getEvents [OF assms(3) assms(6)]
        action_step_getEvents [OF assms(4) assms(7)])
  have "calls sa = calls s2 @ [CallGetEvents (EventDate a1)]"
    using GetEvents_calls [of c svc "EventDate a1" s2] assms(5) by simp
  moreover have "calls sb = calls sa @ [CallGetEvents (EventDate a2)]"
    using GetEvents_calls [of c svc "EventDate a2" sa] assms(6) by simp
  moreover have "calls sc = calls sb @ [CallGetEvents (EventDate a3)]"
    using GetEvents_calls [of c svc "EventDate a3" sb] assms(7) by simp
  ultimately have made: "calls sc = calls s2 @ [CallGetEvents (EventDate a1),
      CallGetEvents (EventDate a2), CallGetEvents (EventDate a3)]"
    by simp
  have inline: "step_block c date (Inl cause) =
      ''Error getting events for '' @ date @ '': '' @ cause @ ''\<newline>''"
    by (simp add: step_block_def)
  have sink: "gateway_calls (calls (snd (ProcessUserMessage c svc u chat msg s))) =
      gateway_calls (calls s) @
      [CallGetEvents (EventDate a1), CallGetEvents (EventDate a2),
       CallGetEvents (EventDate a3)] \<and>
      sink_calls (calls (snd (ProcessUserMessage c svc u chat msg s))) =
      sink_calls (calls s) @ [CallSendMessage chat ?response]"
    if p: "ProcessMessage c (GetUserContext (database s) u 10) msg s = (Inr ai, s1)"
      and a: "AddInteraction c u msg (Message ai) (Action ai) s1 = (storeErr, s2)"
  proof -
    have "calls s2 = calls s"
      by (rule ProcessUserMessage_classified_calls(1) [OF p a exec])
    moreover have "calls (snd (ProcessUserMessage c svc u chat msg s)) =
        calls sc @ [CallSendMessage chat ?response]"
      by (rule ProcessUserMessage_classified_calls(2) [OF p a exec])
    ultimately show ?thesis
      by (simp add: made)
  qed
  have unknown: "multi_actions c svc (x # rest) response t =
      multi_actions c svc rest (response @ ''Unknown action: '' @ Action x @ ''\<newline>'') t"
    if "Action x \<noteq> ''getEvents''"
    by (simp add: action_step_unknown [OF that])
  from exec made inline sink unknown multi_actions_calls [of c svc steps response t]
  show ?thesis
    by blast
qed

lemma sample_standup_line:
  "event_line (sample_sdk completion decoded listing sendResult writeResult)
     (to_CalendarEvent (sample_sdk completion decoded listing sendResult writeResult) standup) =
   bullet @ '' Standup (00:00 - 00:00)\<newline>''"
  by (simp add: event_line_def to_CalendarEvent_def sample_sdk_fields
      parse_or_zero_def sample_Parse_def standup_def sample_Format_def sample_day_def
      pad2_def Sprintf_d_def Itoa.simps)

theorem multi_action_three_steps_witness:
  "gateway_calls (calls (snd (ProcessUserMessage batch_sdk sample_service 7 99 ''my week?''
     sample_state))) =
     [CallGetEvents ''today'', CallGetEvents ''someday'', CallGetEvents ''2025-08-05''] \<and>
   sink_calls (calls (snd (ProcessUserMessage batch_sdk sample_service 7 99 ''my week?''
     sample_state))) =
     [CallSendMessage 99
        (''On it\<newline>\<newline>'' @
         ''Events for today:\<newline>'' @ bullet @ '' Standup (00:00 - 00:00)\<newline>\<newline>'' @
         ''Error getting events for someday: invalid date format: cannot parse someday\<newline>'' @
         ''Events for 2025-08-05:\<newline>'' @ bullet @ '' Standup (00:00 - 00:00)\<newline>\<newline>'')] \<and>
   multi_actions batch_sdk sample_service [sub_intent ''makeEvent'' ''today''] ''Plan:''
     sample_state = (''Plan:Unknown action: makeEvent\<newline>'', sample_state)"
proof -
  let ?a1 = "sub_intent ''getEvents'' ''today''"
  let ?a2 = "sub_intent ''getEvents'' ''someday''"
  let ?a3 = "sub_intent ''getEvents'' ''2025-08-05''"
  let ?x = "sub_intent ''makeEvent'' ''today''"
  let ?found = "Inr [to_CalendarEvent batch_sdk standup] :: error + CalendarEvent list"
  let ?failed = "Inl ''invalid date format: cannot parse someday'' :: error + CalendarEvent list"
  let ?store = "AddInteraction batch_sdk 7 ''my week?'' (Message batch_intent)
      (Action batch_intent) sample_state"
  let ?s2 = "snd ?store"
  let ?sa = "?s2\<lparr>calls := calls ?s2 @ [CallGetEvents ''today'']\<rparr>"
  let ?sb = "?sa\<lparr>calls := calls ?sa @ [CallGetEvents ''someday'']\<rparr>"
  let ?sc = "?sb\<lparr>calls := calls ?sb @ [CallGetEvents ''2025-08-05'']\<rparr>"
  have subs: "Actions batch_intent = [?a1, ?a2, ?a3]"
    by (simp add: batch_intent_def intent_def)
  have kinds: "Action ?a1 = ''getEvents''" "Action ?a2 = ''getEvents''"
      "Action ?a3 = ''getEvents''" "Action ?x \<noteq> ''getEvents''"
    by (simp_all add: sub_intent_def)
  have dates: "EventDate ?a1 = ''today''" "EventDate ?a2 = ''someday''"
      "EventDate ?a3 = ''2025-08-05''" "Action ?x = ''makeEvent''"
      "Message batch_intent = ''On it''"
    by (simp_all add: sub_intent_def batch_intent_def intent_def)
  have g1: "GetEvents batch_sdk sample_service (EventDate ?a1) ?s2 = (?found, ?sa)"
    by (simp only: dates) (simp add: batch_sdk_def sample_GetEvents_day)
  have g2: "GetEvents batch_sdk sample_service (EventDate ?a2) ?sa = (?failed, ?sb)"
    by (simp only: dates) (simp add: batch_sdk_def sample_GetEvents_someday)
  have g3: "GetEvents batch_sdk sample_service (EventDate ?a3) ?sb = (?found, ?sc)"
    by (simp only: dates) (simp add: batch_sdk_def sample_GetEvents_day)
  have classified: "ProcessMessage batch_sdk (GetUserContext (database sample_state) 7 10)
      ''my week?'' sample_state = (Inr batch_intent, sample_state)"
    by (simp add: ProcessMessage_def batch_sdk_def sample_request_intent)
       (simp add: batch_intent_def intent_def)
  have stored: "?store = (fst ?store, ?s2)"
    by simp
  have blocks: "step_block batch_sdk ''today'' ?found =
        ''Events for today:\<newline>'' @ bullet @ '' Standup (00:00 - 00:00)\<newline>\<newline>''"
      "step_block batch_sdk ''someday'' ?failed =
        ''Error getting events for someday: invalid date format: cannot parse someday\<newline>''"
      "step_block batch_sdk ''2025-08-05'' ?found =
        ''Events for 2025-08-05:\<newline>'' @ bullet @ '' Standup (00:00 - 00:00)\<newline>\<newline>''"
    by (simp_all add: step_block_def batch_sdk_def sample_standup_line)
  note run = multi_action_three_steps [OF subs kinds(1,2,3) g1 g2 g3,
      where s = sample_state and u = 7 and msg = "''my week?''" and ?s1.0 = sample_state
      and storeErr = "fst ?store" and chat = 99 and x = ?x and rest = "[]"
      and response = "''Plan:''" and t = sample_state]
  from run classified stored
  have "gateway_calls (calls (snd (ProcessUserMessage batch_sdk sample_service 7 99 ''my week?''
         sample_state))) =
      gateway_calls (calls sample_state) @
      [CallGetEvents (EventDate ?a1), CallGetEvents (EventDate ?a2),
       CallGetEvents (EventDate ?a3)] \<and>
      sink_calls (calls (snd (ProcessUserMessage batch_sdk sample_service 7 99 ''my week?''
         sample_state))) =
      sink_calls (calls sample_state) @
      [CallSendMessage 99
         (Message batch_intent @ ''\<newline>\<newline>'' @ step_block batch_sdk (EventDate ?a1) ?found @
          step_block batch_sdk (EventDate ?a2) ?failed @
          step_block batch_sdk (EventDate ?a3) ?found)]"
    by blast
  then have flow: "gateway_calls (calls (snd (ProcessUserMessage batch_sdk sample_service 7 99
         ''my week?'' sample_state))) =
      [CallGetEvents ''today'', CallGetEvents ''someday'', CallGetEvents ''2025-08-05''] \<and>
      sink_calls (calls (snd (ProcessUserMessage batch_sdk sample_service 7 99 ''my week?''
         sample_state))) =
      [CallSendMessage 99
        (''On it\<newline>\<newline>'' @
         ''Events for today:\<newline>'' @ bullet @ '' Standup (00:00 - 00:00)\<newline>\<newline>'' @
         ''Error getting events for someday: invalid date format: cannot parse someday\<newline>'' @
         ''Events for 2025-08-05:\<newline>'' @ bullet @ '' Standup (00:00 - 00:00)\<newline>\<newline>'')]"
    by (simp only: dates blocks) (simp add: sample_state_def)
  from run kinds(4)
  have "multi_actions batch_sdk sample_service [?x] ''Plan:'' sample_state =
      multi_actions batch_sdk sample_service []
        (''Plan:'' @ ''Unknown action: '' @ Action ?x @ ''\<newline>'') sample_state"
    by blast
  then have unknown: "multi_actions batch_sdk sample_service [?x] ''Plan:'' sample_state =
      (''Plan:Unknown action: makeEvent\<newline>'', sample_state)"
    by (simp only: dates) simp
  from flow unknown show ?thesis by simp
qed

section \<open>Errors returned to the caller\<close>

lemma sample_SendMessage:
  "length text \<le> 4096 \<Longrightarrow>
   SendMessage (sample_sdk completion decoded listing sendResult writeResult) chat text s =
     (case sendResult of None \<Rightarrow> None | Some e \<Rightarrow> Some (''failed to send message: '' @ e),
      s\<lparr>calls := calls s @ [CallSendMessage chat text], sent := sent s @ [(chat, text)]\<rparr>)"
  by (simp add: SendMessage_def Let_def sample_sdk_fields split: option.splits)

text \<open>
  C1 (as the code has it). \<open>ProcessUserMessage\<close> returns the classification error when
  the classification fails, whatever the send of the apology does. Otherwise it returns
  what the final send of the response returns: the dispatch itself never reports an
  error, and the results of storing the interaction and of the calendar calls do not
  reach the caller.
\<close>

theorem returned_errors:
  "(ProcessMessage c (GetUserContext (database s) u 10) msg s = (Inl e, s1) \<longrightarrow>
      fst (ProcessUserMessage c svc u chat msg s) = Some e) \<and>
   (ProcessMessage c (GetUserContext (database s) u 10) msg s = (Inr ai, s1) \<longrightarrow>
    AddInteraction c u msg (Message ai) (Action ai) s1 = (storeErr, s2) \<longrightarrow>
    executeAIAction c svc u ai s2 = ((response, err), s3) \<longrightarrow>
      err = None \<and>
      fst (ProcessUserMessage c svc u chat msg s) = fst (SendMessage c chat response s3))"
proof (intro conjI impI)
  assume "ProcessMessage c (GetUserContext (database s) u 10) msg s = (Inl e, s1)"
  then show "fst (ProcessUserMessage c svc u chat msg s) = Some e"
    by (simp add: ProcessUserMessage_def Let_def split: prod.splits)
next
  assume p: "ProcessMessage c (GetUserContext (database s) u 10) msg s = (Inr ai, s1)"
    and a: "AddInteraction c u msg (Message ai) (Action ai) s1 = (storeErr, s2)"
    and x: "executeAIAction c svc u ai s2 = ((response, err), s3)"
  show "err = None"
    using executeAIAction_no_error [of c svc u ai s2] x by simp
  show "fst (ProcessUserMessage c svc u chat msg s) = fst (SendMessage c chat response s3)"
    by (simp add: ProcessUserMessage_classified [OF p a x])
qed

theorem returned_errors_witness:
  "fst (ProcessUserMessage down_sdk sample_service 7 99 ''hi'' sample_state) =
     Some ''OpenAI API error: timeout'' \<and>
   fst (AddInteraction failing_sdk 7 ''my day?'' ''On it'' ''getEvents'' sample_state) =
     Some ''failed to write interactions file: disk full'' \<and>
   fst (fst (executeAIAction failing_sdk sample_service 7 (intent ''getEvents'' ''today'' '''' [])
     (snd (AddInteraction failing_sdk 7 ''my day?'' ''On it'' ''getEvents'' sample_state)))) =
     ''Error getting events: failed to get events: quota exceeded'' \<and>
   fst (ProcessUserMessage failing_sdk sample_service 7 99 ''my day?'' sample_state) = None"
proof -
  let ?ai = "intent ''getEvents'' ''today'' '''' []"
  let ?store = "AddInteraction failing_sdk 7 ''my day?'' (Message ?ai) (Action ?ai) sample_state"
  let ?reply = "''Error getting events: failed to get events: quota exceeded''"
  let ?s3 = "(snd ?store)\<lparr>calls := calls (snd ?store) @ [CallGetEvents ''today'']\<rparr>"
  have down: "ProcessMessage down_sdk (GetUserContext (database sample_state) 7 10) ''hi''
      sample_state = (Inl ''OpenAI API error: timeout'', sample_state)"
    by (simp add: ProcessMessage_def down_sdk_def sample_request_failure)
  have first: "fst (ProcessUserMessage down_sdk sample_service 7 99 ''hi'' sample_state) =
      Some ''OpenAI API error: timeout''"
    using returned_errors [where c = down_sdk and s = sample_state and u = 7
        and msg = "''hi''" and e = "''OpenAI API error: timeout''" and ?s1.0 = sample_state
        and svc = sample_service and chat = 99] down
    by blast
  have fields: "Message ?ai = ''On it''" "Action ?ai = ''getEvents''" "Actions ?ai = []"
      "EventDate ?ai = ''today''"
    by (simp_all add: intent_def)
  have classified: "ProcessMessage failing_sdk (GetUserContext (database sample_state) 7 10)
      ''my day?'' sample_state = (Inr ?ai, sample_state)"
    by (simp add: ProcessMessage_def failing_sdk_def sample_request_intent fields)
  have refused: "fst ?store = Some ''failed to write interactions file: disk full''"
    by (simp add: AddInteraction_def Let_def saveInteractions_def failing_sdk_def
        sample_sdk_fields)
  then have stored: "?store = (Some ''failed to write interactions file: disk full'', snd ?store)"
    by (simp add: prod_eq_iff)
  have executed: "executeAIAction failing_sdk sample_service 7 ?ai (snd ?store) =
      ((?reply, None), ?s3)"
    by (simp add: executeAIAction_def fields failing_sdk_def sample_GetEvents_day)
  have delivered: "fst (SendMessage failing_sdk 99 ?reply ?s3) = None"
    by (simp add: failing_sdk_def sample_SendMessage)
  from returned_errors [where c = failing_sdk and s = sample_state and u = 7
      and msg = "''my day?''" and ai = ?ai and ?s1.0 = sample_state and svc = sample_service
      and storeErr = "Some ''failed to write interactions file: disk full''"
      and ?s2.0 = "snd ?store" and response = ?reply and err = None and ?s3.0 = ?s3
      and chat = 99] classified stored executed
  have "fst (ProcessUserMessage failing_sdk sample_service 7 99 ''my day?'' sample_state) =
      fst (SendMessage failing_sdk 99 ?reply ?s3)"
    by blast
  with delivered
  have last: "fst (ProcessUserMessage failing_sdk sample_service 7 99 ''my day?'' sample_state) =
      None"
    by simp
  from refused have kept: "fst (AddInteraction failing_sdk 7 ''my day?'' ''On it'' ''getEvents''
      sample_state) = Some ''failed to write interactions file: disk full''"
    by (simp add: fields)
  from executed have shown: "fst (fst (executeAIAction failing_sdk sample_service 7 ?ai
      (snd (AddInteraction failing_sdk 7 ''my day?'' ''On it'' ''getEvents'' sample_state)))) =
      ?reply"
    by (simp add: fields)
  from first kept shown last show ?thesis by blast
qed

theorem classification_error_is_returned_counterexample:
  "fst (SendMessage down_sdk 99 apology sample_state) = None \<and>
   fst (ProcessUserMessage down_sdk sample_service 7 99 ''hi'' sample_state) =
     Some ''OpenAI API error: timeout''"
proof -
  have "length apology \<le> 4096"
    by (simp add: apology_def)
  then have "fst (SendMessage down_sdk 99 apology sample_state) = None"
    by (simp add: down_sdk_def sample_SendMessage)
  moreover have "fst (ProcessUserMessage down_sdk sample_service 7 99 ''hi'' sample_state) =
      Some ''OpenAI API error: timeout''"
    by (simp add: ProcessUserMessage_def Let_def ProcessMessage_def down_sdk_def
        sample_request_failure split: prod.splits)
  ultimately show ?thesis by simp
qed

section \<open>Long messages\<close>

lemma last_index_from_range:
  "last_index_from xs sep i found = found \<or>
   (i \<le> last_index_from xs sep i found \<and> last_index_from xs sep i found < i + int (length xs))"
proof (induction xs arbitrary: i found)
  case Nil
  then show ?case by simp
next
  case (Cons x xs)
  show ?case
    using Cons.IH [of "i + 1" "if x = sep then i else found"]
    by (auto split: if_splits)
qed

lemma LastIndex_less: "LastIndex s sep < int (length s)"
  using last_index_from_range [of s sep 0 "- 1"]
  by (auto simp: LastIndex_def)

lemma length_slice: "hi \<le> length s \<Longrightarrow> length (slice s lo hi) = hi - lo"
  by (simp add: slice_def)

lemma chunk_end_bounds:
  assumes "start < length text"
  shows "start < chunk_end text start"
    and "chunk_end text start \<le> length text"
    and "chunk_end text start - start \<le> 4000"
proof -
  let ?end1 = "if start + maxLength > length text then length text else start + maxLength"
  let ?nl = "LastIndex (slice text start ?end1) (CHR 0x0A)"
  have e1: "start < ?end1" "?end1 \<le> length text" "?end1 - start \<le> 4000"
    using assms by (auto simp: maxLength_def)
  have "?nl < int (length (slice text start ?end1))"
    by (rule LastIndex_less)
  then have nl: "?nl < int (?end1 - start)"
    using e1(2) by (simp only: length_slice)
  have ce: "chunk_end text start =
      (if ?end1 < length text \<and> ?nl > 0 \<and> ?nl > int maxLength div 2
       then start + nat ?nl + 1 else ?end1)"
    by (simp add: chunk_end_def Let_def)
  show "start < chunk_end text start"
    using e1(1) by (simp add: ce)
  show "chunk_end text start \<le> length text"
    using e1(2) nl unfolding ce by (auto split: if_splits)
  show "chunk_end text start - start \<le> 4000"
    using e1(3) nl unfolding ce by (auto split: if_splits)
qed

lemma concat_split_loop:
  "start \<le> length body \<Longrightarrow>
   concat (split_loop body start messages) = concat messages @ drop start body"
proof (induction body start messages rule: split_loop.induct)
  case (1 body start messages)
  show ?case
  proof (cases "start < length body")
    case True
    note b = chunk_end_bounds [OF True]
    have "take (chunk_end body start - start) (drop start body) @ drop (chunk_end body start) body =
        drop start body"
      using b(1)
      by (metis append_take_drop_id drop_drop le_add_diff_inverse2 less_imp_le_nat)
    then show ?thesis
      using True "1.IH" [OF True b(2)]
      by (subst split_loop.simps) (simp add: slice_def)
  next
    case False
    then show ?thesis
      using "1.prems" by (subst split_loop.simps) simp
  qed
qed

lemma length_split_loop:
  "\<forall>m \<in> set messages. length m \<le> 4000 \<Longrightarrow>
   \<forall>m \<in> set (split_loop body start messages). length m \<le> 4000"
proof (induction body start messages rule: split_loop.induct)
  case (1 body start messages)
  show ?case
  proof (cases "start < length body")
    case True
    note b = chunk_end_bounds [OF True]
    have "length (slice body start (chunk_end body start)) \<le> 4000"
      using b(3) by (simp add: length_slice [OF b(2)])
    with "1.prems" have "\<forall>m \<in> set (messages @ [slice body start (chunk_end body start)]).
        length m \<le> 4000"
      by simp
    from "1.IH" [OF True this] show ?thesis
      using True by (subst split_loop.simps) simp
  next
    case False
    then show ?thesis
      using "1.prems" by (subst split_loop.simps) simp
  qed
qed

lemma marked_with_markers: "marked (i + length parts) i parts = with_markers parts"
proof (induction parts arbitrary: i)
  case Nil
  then show ?case by (simp add: with_markers_def)
next
  case (Cons p parts)
  have "marked (i + length (p # parts)) (i + 1) parts = with_markers parts"
    using Cons.IH [of "i + 1"] by simp
  then show ?case
    by (cases parts) (simp_all add: with_markers_def)
qed

lemma send_parts_sent:
  "prefix (sent (snd (send_parts c chat n i parts s)))
     (sent s @ map (Pair chat) (marked n i parts)) \<and>
   (fst (send_parts c chat n i parts s) = None \<longrightarrow>
      sent (snd (send_parts c chat n i parts s)) = sent s @ map (Pair chat) (marked n i parts))"
proof (induction parts arbitrary: i s)
  case Nil
  then show ?case by simp
next
  case (Cons p parts)
  let ?text = "if int i < int n - 1 then p @ continued else p"
  obtain r w where b: "bot_Send c (world s) chat ?text = (r, w)"
    by (cases "bot_Send c (world s) chat ?text")
  let ?s' = "s\<lparr>world := w, sent := sent s @ [(chat, ?text)]\<rparr>"
  show ?case
  proof (cases r)
    case None
    have step: "send_parts c chat n i (p # parts) s = send_parts c chat n (i + 1) parts ?s'"
      using b None by (simp add: Let_def)
    show ?thesis
      unfolding step using Cons.IH [of "i + 1" ?s'] by simp
  next
    case (Some e)
    have stop: "send_parts c chat n i (p # parts) s =
        (Some (''failed to send message part '' @ Sprintf_d (int i + 1) @ ''/'' @
               Sprintf_d (int n) @ '': '' @ e), ?s')"
      using b Some by (simp add: Let_def)
    show ?thesis
      unfolding stop by simp
  qed
qed

text \<open>
  C10. A text longer than 4096 bytes is cut into consecutive parts whose concatenation
  is the text, each at most 4000 bytes long. The parts are sent in order, each but the
  last with the continuation marker appended: what has been handed to the Telegram API
  is always a beginning of that marked sequence, and all of it when the send reports no
  error.
\<close>

theorem long_message_split:
  assumes "length text > 4096"
  shows "concat (split_loop text 0 []) = text \<and>
         (\<forall>part \<in> set (split_loop text 0 []). length part \<le> 4000) \<and>
         prefix (sent (snd (SendMessage c chat text s)))
           (sent s @ map (Pair chat) (with_markers (split_loop text 0 []))) \<and>
         (fst (SendMessage c chat text s) = None \<longrightarrow>
            sent (snd (SendMessage c chat text s)) =
              sent s @ map (Pair chat) (with_markers (split_loop text 0 [])))"
proof -
  let ?parts = "split_loop text 0 []"
  let ?s = "s\<lparr>calls := calls s @ [CallSendMessage chat text]\<rparr>"
  have whole: "concat ?parts = text"
    using concat_split_loop [of 0 "text" "[]"] by simp
  have short: "\<forall>part \<in> set ?parts. length part \<le> 4000"
    using length_split_loop [of "[]" "text" 0] by simp
  have long: "SendMessage c chat text s = send_parts c chat (length ?parts) 0 ?parts ?s"
    using assms by (simp add: SendMessage_def sendLongMessage_def Let_def)
  have m: "marked (length ?parts) 0 ?parts = with_markers ?parts"
    using marked_with_markers [of 0 ?parts] by simp
  from send_parts_sent [of c chat "length ?parts" 0 ?parts ?s]
  have "prefix (sent (snd (SendMessage c chat text s)))
          (sent s @ map (Pair chat) (with_markers ?parts)) \<and>
        (fst (SendMessage c chat text s) = None \<longrightarrow>
           sent (snd (SendMessage c chat text s)) =
             sent s @ map (Pair chat) (with_markers ?parts))"
    by (simp add: long m)
  with whole short show ?thesis by blast
qed

lemma last_index_from_absent: "sep \<notin> set xs \<Longrightarrow> last_index_from xs sep i found = found"
  by (induction xs arbitrary: i) auto

lemma long_text_parts:
  "split_loop long_text 0 [] = [replicate 4000 (CHR ''a''), replicate 1000 (CHR ''a'')]"
proof -
  have no_newline: "LastIndex (replicate k (CHR ''a'')) (CHR 0x0A) = - 1" for k
    by (simp add: LastIndex_def last_index_from_absent)
  have first: "chunk_end long_text 0 = 4000"
    by (simp add: chunk_end_def Let_def maxLength_def long_text_def slice_def no_newline)
  have second: "chunk_end long_text 4000 = 5000"
    by (simp add: chunk_end_def Let_def maxLength_def long_text_def)
  have len: "length long_text = 5000"
    by (simp add: long_text_def)
  have "split_loop long_text 0 [] = split_loop long_text 4000 [replicate 4000 (CHR ''a'')]"
    by (subst split_loop.simps) (simp add: len first, simp add: long_text_def slice_def)
  also have "\<dots> = split_loop long_text 5000
      [replicate 4000 (CHR ''a''), replicate 1000 (CHR ''a'')]"
    by (subst split_loop.simps) (simp add: len second, simp add: long_text_def slice_def)
  also have "\<dots> = [replicate 4000 (CHR ''a''), replicate 1000 (CHR ''a'')]"
    by (subst split_loop.simps) (simp add: len)
  finally show ?thesis .
qed

lemma sample_send_parts:
  "fst (send_parts (sample_sdk completion decoded listing None writeResult) chat n i parts s) =
     None"
  by (induction parts arbitrary: i s) (simp_all add: Let_def sample_sdk_fields)

theorem long_message_split_witness:
  "4096 < length long_text \<and>
   split_loop long_text 0 [] = [replicate 4000 (CHR ''a''), replicate 1000 (CHR ''a'')] \<and>
   sent (snd (SendMessage quiet_sdk 99 long_text sample_state)) =
     [(99, replicate 4000 (CHR ''a'') @ ''\<newline>\<newline>[Message continued...]''),
      (99, replicate 1000 (CHR ''a''))]"
proof -
  have long: "4096 < length long_text"
    by (simp add: long_text_def)
  have delivered: "fst (SendMessage quiet_sdk 99 long_text sample_state) = None"
    using long
    by (simp add: SendMessage_def sendLongMessage_def Let_def quiet_sdk_def sample_send_parts)
  from long_message_split [OF long, of quiet_sdk 99 sample_state] delivered
  have "sent (snd (SendMessage quiet_sdk 99 long_text sample_state)) =
      sent sample_state @ map (Pair 99) (with_markers (split_loop long_text 0 []))"
    by blast
  then have "sent (snd (SendMessage quiet_sdk 99 long_text sample_state)) =
     [(99, replicate 4000 (CHR ''a'') @ ''\<newline>\<newline>[Message continued...]''),
      (99, replicate 1000 (CHR ''a''))]"
    by (simp add: long_text_parts with_markers_def sample_state_def continued_def)
  with long long_text_parts show ?thesis by simp
qed

end
